theory Spec2Isabelle
  imports Main
begin

section \<open>Values shared by both packages\<close>

text \<open>
  The sources hold two Go packages: \<open>ethsigner\<close> (the signer provider:
  \<open>WriteConfig\<close>, \<open>FirstTimeSetup\<close>, \<open>getCommand\<close>, \<open>GetDockerServiceDefinition\<close>) and
  \<open>docker\<close> (the process runner \<open>runCommand\<close> and the helpers built on it).
  Everything outside the Go process (the file system, the helper methods whose bodies are
  not among these sources, the external commands) is an environment that answers each
  request and moves to a new world; the model logs every request with its answer.
\<close>

datatype go_error = GoError string

datatype panic = TypeAssertion | NilDereference | PanicError go_error

text \<open>What a Go call can do: return, panic, or never return.\<close>

datatype 'a outcome = Return 'a | Panic panic | Hang

subsection \<open>Formatting: \<open>%d\<close> and \<open>strings.Join\<close>\<close>

definition digit_char :: "nat \<Rightarrow> char" where
  "digit_char d = char_of (48 + d)"

fun show_nat :: "nat \<Rightarrow> string" where
  "show_nat n = (if n < 10 then [digit_char n] else show_nat (n div 10) @ [digit_char (n mod 10)])"

declare show_nat.simps [simp del]

definition show_int :: "int \<Rightarrow> string" where
  "show_int i = (if i < 0 then CHR ''-'' # show_nat (nat (- i)) else show_nat (nat i))"

fun strings_Join :: "string list \<Rightarrow> string \<Rightarrow> string" where
  "strings_Join [] sep = []"
| "strings_Join [x] sep = x"
| "strings_Join (x # y # ys) sep = x @ sep @ strings_Join (y # ys) sep"

subsection \<open>Paths: \<open>path.Clean\<close>, \<open>path.Join\<close>, \<open>path.Base\<close>\<close>

text \<open>
  The standard library's lexical path functions, for the slash separator
  (\<open>filepath.Join\<close> is the same function on the platforms the tool drives containers on).
\<close>

fun split_slash :: "string \<Rightarrow> string \<Rightarrow> string list" where
  "split_slash [] cur = [rev cur]"
| "split_slash (c # cs) cur =
     (if c = CHR ''/'' then rev cur # split_slash cs [] else split_slash cs (c # cur))"

fun clean_step :: "bool \<Rightarrow> string list \<Rightarrow> string \<Rightarrow> string list" where
  "clean_step rooted out elem =
     (if elem = [] \<or> elem = ''.'' then out
      else if elem = ''..'' then
        (if out \<noteq> [] \<and> last out \<noteq> ''..'' then butlast out
         else if rooted then out
         else out @ [elem])
      else out @ [elem])"

definition path_Clean :: "string \<Rightarrow> string" where
  "path_Clean p =
     (if p = [] then ''.''
      else let rooted = (hd p = CHR ''/'');
               out = foldl (clean_step rooted) [] (split_slash p [])
           in if rooted then CHR ''/'' # strings_Join out ''/''
              else if out = [] then ''.'' else strings_Join out ''/'')"

definition path_Join :: "string list \<Rightarrow> string" where
  "path_Join elems =
     (let nonempty = filter (\<lambda>e. e \<noteq> []) elems
      in if nonempty = [] then [] else path_Clean (strings_Join nonempty ''/''))"

definition filepath_Join :: "string list \<Rightarrow> string" where
  "filepath_Join elems = path_Join elems"

definition path_Base :: "string \<Rightarrow> string" where
  "path_Base p =
     (if p = [] then ''.''
      else let stripped = rev (dropWhile (\<lambda>c. c = CHR ''/'') (rev p));
               elem = rev (takeWhile (\<lambda>c. c \<noteq> CHR ''/'') (rev stripped))
           in if elem = [] then ''/'' else elem)"

section \<open>Package docker\<close>

subsection \<open>Commands, processes and the execution context\<close>

text \<open>
  \<open>exec.Cmd\<close>: the binary as named in the call of \<open>exec.Command\<close>, the argument vector
  (the binary's name first) and the working directory. \<open>exec.Command\<close> also looks a name
  without a separator up on the search path; what the lookup finds is the environment's
  answer (\<open>lookPath\<close> below) and only \<open>cmd.String()\<close> reads it.
\<close>

record Cmd =
  Path :: string
  Args :: "string list"
  Dir :: string

definition exec_Command :: "string \<Rightarrow> string list \<Rightarrow> Cmd" where
  "exec_Command name arg = \<lparr>Path = name, Args = name # arg, Dir = []\<rparr>"

text \<open>
  One receive of the capture loop's \<open>select\<close>. A receive from a stream channel yields a
  line (\<open>Some line\<close>, \<open>ok = true\<close>) or, once the drainer has closed the channel, the zero
  value (\<open>None\<close>: the empty string with \<open>ok = false\<close>); a closed channel can be received
  from any number of times. \<open>ErrChan\<close> is a receive from the error channel.
\<close>

datatype chan_recv = Stdout "string option" | Stderr "string option" | ErrChan go_error

text \<open>
  \<open>readPipe\<close> on a pipe that carries \<open>content\<close> and then ends: \<open>ReadString\<close> cuts the
  content after each newline, every line is sent on the stream's channel, and at the end
  of the input the channel is closed. What follows the last newline comes back from
  \<open>ReadString\<close> together with \<open>io.EOF\<close> and is not sent. (A read error other than the
  end of the input is sent on the error channel: an \<open>ErrChan\<close> receive.)
\<close>

fun ReadString_lines :: "string \<Rightarrow> string \<Rightarrow> string list" where
  "ReadString_lines [] cur = []"
| "ReadString_lines (c # cs) cur =
     (if c = CHR 0x0A then rev (c # cur) # ReadString_lines cs []
      else ReadString_lines cs (c # cur))"

definition readPipe :: "(string option \<Rightarrow> chan_recv) \<Rightarrow> string \<Rightarrow> chan_recv list" where
  "readPipe outputChan content =
     map (\<lambda>line. outputChan (Some line)) (ReadString_lines content []) @ [outputChan None]"

text \<open>
  What a started command does, as far as \<open>runCommand\<close> can see: the receives its
  \<open>select\<close> makes, in the order it makes them for as long as it keeps selecting, and the
  exit code \<open>cmd.ProcessState.ExitCode()\<close> reports after \<open>cmd.Wait()\<close>.
\<close>

record process =
  arrivals :: "chan_recv list"
  ExitCode :: int

type_synonym DockerComposeVersion = int

definition None_version :: DockerComposeVersion where "None_version = 0"
definition ComposeV1 :: DockerComposeVersion where "ComposeV1 = 1"
definition ComposeV2 :: DockerComposeVersion where "ComposeV2 = 2"

text \<open>
  The values \<open>runCommand\<close> and \<open>RunDockerComposeCommand\<close> read from the \<open>context.Context\<close>:
  \<open>log.VerbosityFromContext(ctx)\<close>, \<open>ctx.Value(CtxIsLogCmdKey{})\<close> (\<open>None\<close>: unset or not
  a bool) and \<open>ctx.Value(CtxComposeVersionKey{})\<close> (\<open>None\<close>: unset or not a
  \<open>DockerComposeVersion\<close>).
\<close>

record Context =
  VerbosityFromContext :: bool
  CtxIsLogCmdKey :: "bool option"
  CtxComposeVersionKey :: "DockerComposeVersion option"

subsection \<open>The environment and the log\<close>

text \<open>
  Requests to the host that return a Go \<open>error\<close>. The last four are functions and
  methods of the provider whose bodies are in other files: the environment decides their
  result.
\<close>

datatype syscall =
    MkdirAll string nat
  | WriteFile string string nat
  | SignerConfig_WriteConfig int string string
  | writeAccountToDisk string string string
  | writeTomlKeyFile string string
  | importAccountToEthsigner string

datatype action = Called syscall "go_error option" | Started Cmd process

record 'w env =
  sys :: "syscall \<Rightarrow> 'w \<Rightarrow> go_error option \<times> 'w"
  start :: "Cmd \<Rightarrow> 'w \<Rightarrow> process \<times> 'w"
  lookPath :: "string \<Rightarrow> string option"

record 'w state =
  world :: 'w
  trace :: "action list"
  console :: "string list"

definition perform :: "'w env \<Rightarrow> syscall \<Rightarrow> 'w state \<Rightarrow> go_error option outcome \<times> 'w state" where
  "perform e c s =
     (case sys e c (world s) of
        (r, w') \<Rightarrow> (Return r, s\<lparr>world := w', trace := trace s @ [Called c r]\<rparr>))"

definition fmt_Print :: "string \<Rightarrow> 'w state \<Rightarrow> 'w state" where
  "fmt_Print str s = s\<lparr>console := console s @ [str]\<rparr>"

definition fmt_Println :: "string \<Rightarrow> 'w state \<Rightarrow> 'w state" where
  "fmt_Println str s = fmt_Print (str @ [CHR 0x0A]) s"

text \<open>\<open>if err := step; err != nil { return err }\<close>, and a panic or a hang passes through.\<close>

definition on_success ::
  "go_error option outcome \<times> 's \<Rightarrow> ('s \<Rightarrow> go_error option outcome \<times> 's) \<Rightarrow> go_error option outcome \<times> 's" where
  "on_success r k = (case r of (Return None, s) \<Rightarrow> k s | _ \<Rightarrow> r)"

subsection \<open>\<open>runCommand\<close>\<close>

datatype capture = Broke string | Failed go_error | Blocked

text \<open>
  The loop labelled \<open>outputCapture\<close>, over the receives of its \<open>select\<close>. With no receive
  left the \<open>select\<close> blocks for ever.
\<close>

fun outputCapture ::
  "bool \<Rightarrow> bool \<Rightarrow> chan_recv list \<Rightarrow> string \<Rightarrow> 'w state \<Rightarrow> capture \<times> 'w state" where
  "outputCapture isLogCmd verbose [] outputBuff st = (Blocked, st)"
| "outputCapture isLogCmd verbose (Stdout r # rs) outputBuff st =
     (let s = (case r of None \<Rightarrow> [] | Some l \<Rightarrow> l); ok = (r \<noteq> None)
      in if isLogCmd \<or> verbose then
           (if \<not> ok then (Broke outputBuff, st)
            else outputCapture isLogCmd verbose rs (outputBuff @ s) (fmt_Print s st))
         else outputCapture isLogCmd verbose rs (outputBuff @ s) st)"
| "outputCapture isLogCmd verbose (Stderr r # rs) outputBuff st =
     (let s = (case r of None \<Rightarrow> [] | Some l \<Rightarrow> l); ok = (r \<noteq> None)
      in if \<not> ok then (Broke outputBuff, st)
         else outputCapture isLogCmd verbose rs (outputBuff @ s)
                (if verbose then fmt_Print s st else st))"
| "outputCapture isLogCmd verbose (ErrChan err # rs) outputBuff st = (Failed err, st)"

text \<open>
  \<open>cmd.String()\<close>: the looked-up path followed by the arguments, or, when the lookup
  failed, the argument vector as given.
\<close>

definition cmd_String :: "'w env \<Rightarrow> Cmd \<Rightarrow> string" where
  "cmd_String e cmd =
     (if CHR ''/'' \<in> set (Path cmd) then strings_Join (Path cmd # tl (Args cmd)) '' ''
      else case lookPath e (Path cmd) of
             Some path \<Rightarrow> strings_Join (path # tl (Args cmd)) '' ''
           | None \<Rightarrow> strings_Join (Args cmd) '' '')"

definition runCommand ::
  "'w env \<Rightarrow> Context \<Rightarrow> Cmd \<Rightarrow> 'w state \<Rightarrow> (string \<times> go_error option) outcome \<times> 'w state" where
  "runCommand e ctx cmd s0 =
     (let verbose = VerbosityFromContext ctx;
          isLogCmd = (case CtxIsLogCmdKey ctx of Some b \<Rightarrow> b | None \<Rightarrow> False);
          s1 = (if verbose then fmt_Println (cmd_String e cmd) s0 else s0)
      in case start e cmd (world s1) of
           (proc, w') \<Rightarrow>
             (case outputCapture isLogCmd verbose (arrivals proc) []
                     (s1\<lparr>world := w', trace := trace s1 @ [Started cmd proc]\<rparr>) of
                (Blocked, s2) \<Rightarrow> (Hang, s2)
              | (Failed err, s2) \<Rightarrow> (Return ([], Some err), s2)
              | (Broke outputBuff, s2) \<Rightarrow>
                  (let statusCode = ExitCode proc
                   in if statusCode \<noteq> 0 then
                        (Return ([], Some (GoError (strings_Join (Args cmd) '' '' @ '' ['' @
                                   show_int statusCode @ ''] '' @ outputBuff))), s2)
                      else (Return (outputBuff, None), s2))))"

subsection \<open>The helpers built on \<open>runCommand\<close>\<close>

definition drop_output ::
  "(string \<times> go_error option) outcome \<times> 's \<Rightarrow> go_error option outcome \<times> 's" where
  "drop_output r =
     (case r of (Return (out, err), s) \<Rightarrow> (Return err, s)
              | (Panic p, s) \<Rightarrow> (Panic p, s)
              | (Hang, s) \<Rightarrow> (Hang, s))"

definition RunDockerCommand ::
  "'w env \<Rightarrow> Context \<Rightarrow> string \<Rightarrow> string list \<Rightarrow> 'w state \<Rightarrow> go_error option outcome \<times> 'w state" where
  "RunDockerCommand e ctx workingDir command s =
     drop_output (runCommand e ctx ((exec_Command ''docker'' command)\<lparr>Dir := workingDir\<rparr>) s)"

definition RunDockerCommandBuffered ::
  "'w env \<Rightarrow> Context \<Rightarrow> string \<Rightarrow> string list \<Rightarrow> 'w state \<Rightarrow>
     (string \<times> go_error option) outcome \<times> 'w state" where
  "RunDockerCommandBuffered e ctx workingDir command s =
     runCommand e ctx ((exec_Command ''docker'' command)\<lparr>Dir := workingDir\<rparr>) s"

text \<open>
  The loop of \<open>RunDockerCommandRetry\<close>, from a given value of \<open>attempt\<close>. The counter
  only grows while it is below \<open>retries\<close>, so Go's bounded \<open>int\<close> never wraps here.
\<close>

function RunDockerCommandRetry_from ::
  "'w env \<Rightarrow> Context \<Rightarrow> string \<Rightarrow> int \<Rightarrow> string list \<Rightarrow> int \<Rightarrow> 'w state \<Rightarrow>
     go_error option outcome \<times> 'w state" where
  "RunDockerCommandRetry_from e ctx workingDir retries command attempt s =
     (case RunDockerCommand e ctx workingDir command s of
        (Return (Some err), s') \<Rightarrow>
          (if attempt < retries
           then RunDockerCommandRetry_from e ctx workingDir retries command (attempt + 1) s'
           else (Return (Some err), s'))
      | (Return None, s') \<Rightarrow> (Return None, s')
      | (Panic p, s') \<Rightarrow> (Panic p, s')
      | (Hang, s') \<Rightarrow> (Hang, s'))"
  by pat_completeness auto
termination
  by (relation "measure (\<lambda>(e, ctx, workingDir, retries, command, attempt, s). nat (retries - attempt))")
     auto

declare RunDockerCommandRetry_from.simps [simp del]

definition RunDockerCommandRetry ::
  "'w env \<Rightarrow> Context \<Rightarrow> string \<Rightarrow> int \<Rightarrow> string list \<Rightarrow> 'w state \<Rightarrow>
     go_error option outcome \<times> 'w state" where
  "RunDockerCommandRetry e ctx workingDir retries command s =
     RunDockerCommandRetry_from e ctx workingDir retries command 0 s"

definition RunDockerComposeCommand ::
  "'w env \<Rightarrow> Context \<Rightarrow> string \<Rightarrow> string list \<Rightarrow> 'w state \<Rightarrow> go_error option outcome \<times> 'w state" where
  "RunDockerComposeCommand e ctx workingDir command s =
     (if CtxComposeVersionKey ctx = Some ComposeV1 then
        drop_output (runCommand e ctx ((exec_Command ''docker-compose'' command)\<lparr>Dir := workingDir\<rparr>) s)
      else if CtxComposeVersionKey ctx = Some ComposeV2 then
        drop_output (runCommand e ctx
          ((exec_Command ''docker'' ([''compose''] @ command))\<lparr>Dir := workingDir\<rparr>) s)
      else (Return (Some (GoError ''No version for docker-compose has been detected.'')), s))"

definition CreateVolume_args :: "string \<Rightarrow> string list" where
  "CreateVolume_args volumeName = [''volume'', ''create'', volumeName]"

definition CreateVolume ::
  "'w env \<Rightarrow> Context \<Rightarrow> string \<Rightarrow> 'w state \<Rightarrow> go_error option outcome \<times> 'w state" where
  "CreateVolume e ctx volumeName s = RunDockerCommand e ctx ''.'' (CreateVolume_args volumeName) s"

definition CopyFileToVolume_args :: "string \<Rightarrow> string \<Rightarrow> string \<Rightarrow> string list" where
  "CopyFileToVolume_args volumeName sourcePath destPath =
     (let fileName = path_Base sourcePath
      in [''run'', ''--rm'', ''-v'', sourcePath @ '':/source/'' @ fileName,
          ''-v'', volumeName @ '':/dest'', ''alpine'', ''cp'', ''-R'',
          path_Join [''/'', ''source'', fileName], path_Join [''/'', ''dest'', destPath]])"

definition CopyFileToVolume ::
  "'w env \<Rightarrow> Context \<Rightarrow> string \<Rightarrow> string \<Rightarrow> string \<Rightarrow> 'w state \<Rightarrow>
     go_error option outcome \<times> 'w state" where
  "CopyFileToVolume e ctx volumeName sourcePath destPath s =
     RunDockerCommand e ctx ''.'' (CopyFileToVolume_args volumeName sourcePath destPath) s"

definition MkdirInVolume ::
  "'w env \<Rightarrow> Context \<Rightarrow> string \<Rightarrow> string \<Rightarrow> 'w state \<Rightarrow> go_error option outcome \<times> 'w state" where
  "MkdirInVolume e ctx volumeName directory s =
     RunDockerCommand e ctx ''.''
       [''run'', ''--rm'', ''-v'', volumeName @ '':/dest'', ''alpine'', ''mkdir'', ''-p'',
        path_Join [''/'', ''dest'', directory]] s"

definition RemoveVolume ::
  "'w env \<Rightarrow> Context \<Rightarrow> string \<Rightarrow> 'w state \<Rightarrow> go_error option outcome \<times> 'w state" where
  "RemoveVolume e ctx volumeName s = RunDockerCommand e ctx ''.'' [''volume'', ''remove'', volumeName] s"

definition CopyFromContainer ::
  "'w env \<Rightarrow> Context \<Rightarrow> string \<Rightarrow> string \<Rightarrow> string \<Rightarrow> 'w state \<Rightarrow>
     go_error option outcome \<times> 'w state" where
  "CopyFromContainer e ctx containerName sourcePath destPath s =
     on_success (RunDockerCommand e ctx ''.'' [''cp'', containerName @ '':'' @ sourcePath, destPath] s)
       (\<lambda>s'. (Return None, s'))"

section \<open>Package ethsigner\<close>

subsection \<open>Stacks, members and accounts\<close>

record ethereum_Account =
  Address :: string
  PrivateKey :: string

text \<open>
  A member's \<open>Account\<close> field is an \<open>interface{}\<close>: it holds a \<open>*ethereum.Account\<close>
  (\<open>None\<close>: the nil pointer of that type) or a value of any other dynamic type.
\<close>

datatype account_iface = EthereumAccount "ethereum_Account option" | OtherAccount

record Member =
  Account :: account_iface

text \<open>
  The fields of \<open>types.Stack\<close> the provider reads; \<open>ChainID\<close> is the value its method
  \<open>ChainID()\<close> returns.
\<close>

record Stack =
  Name :: string
  Members :: "Member list"
  InitDir :: string
  RuntimeDir :: string
  StackDir :: string
  ExposedBlockchainPort :: int
  ChainID :: int

record InitOptions =
  InitOptions_ChainID :: int

record EthSignerProvider =
  Verbose :: bool
  Stack :: Stack

definition ethsignerImage :: string where
  "ethsignerImage = ''ghcr.io/hyperledger/firefly-signer:v0.9.1''"

definition gethImage :: string where
  "gethImage = ''ethereum/client-go:release-1.10''"

definition useJavaSigner :: bool where
  "useJavaSigner = False"

text \<open>
  The provider calls the docker helpers with its \<open>Verbose\<close> flag; the helpers of the
  docker package read the flag from their context, which then carries nothing else.
\<close>

definition provider_ctx :: "EthSignerProvider \<Rightarrow> Context" where
  "provider_ctx p =
     \<lparr>VerbosityFromContext = Verbose p, CtxIsLogCmdKey = None, CtxComposeVersionKey = None\<rparr>"

text \<open>\<open>member.Account.(*ethereum.Account)\<close> followed by the first field access.\<close>

definition assert_ethereum_Account :: "account_iface \<Rightarrow> ethereum_Account outcome" where
  "assert_ethereum_Account a =
     (case a of OtherAccount \<Rightarrow> Panic TypeAssertion
              | EthereumAccount None \<Rightarrow> Panic NilDereference
              | EthereumAccount (Some acc) \<Rightarrow> Return acc)"

subsection \<open>\<open>WriteConfig\<close>\<close>

fun WriteConfig_members ::
  "'w env \<Rightarrow> string \<Rightarrow> Member list \<Rightarrow> 'w state \<Rightarrow> go_error option outcome \<times> 'w state" where
  "WriteConfig_members e initDir [] s = (Return None, s)"
| "WriteConfig_members e initDir (member # rest) s =
     (case assert_ethereum_Account (Account member) of
        Panic p \<Rightarrow> (Panic p, s)
      | Hang \<Rightarrow> (Hang, s)
      | Return account \<Rightarrow>
          on_success (perform e (writeAccountToDisk initDir (Address account) (PrivateKey account)) s)
            (\<lambda>s. on_success (perform e (writeTomlKeyFile initDir (Address account)) s)
              (\<lambda>s. WriteConfig_members e initDir rest s)))"

text \<open>\<open>stacksDir\<close> is \<open>constants.StacksDir\<close>; \<open>0755\<close> is 493.\<close>

definition WriteConfig ::
  "'w env \<Rightarrow> string \<Rightarrow> EthSignerProvider \<Rightarrow> InitOptions \<Rightarrow> string \<Rightarrow> 'w state \<Rightarrow>
     go_error option outcome \<times> 'w state" where
  "WriteConfig e stacksDir p options rpcURL s0 =
     (let initDir = filepath_Join [stacksDir, Name (Stack p), ''init''];
          blockchainDirectory = filepath_Join [initDir, ''blockchain'']
      in on_success (perform e (MkdirAll blockchainDirectory 493) s0)
           (\<lambda>s. on_success
              (perform e (WriteFile (filepath_Join [initDir, ''blockchain'', ''password''])
                            ''correcthorsebatterystaple'' 493) s)
              (\<lambda>s. let signerConfigPath = filepath_Join [initDir, ''config'', ''ethsigner.yaml'']
                    in case perform e (SignerConfig_WriteConfig (InitOptions_ChainID options) rpcURL
                                         signerConfigPath) s of
                         (Return (Some err), s') \<Rightarrow> (Return None, s')
                       | (Return None, s') \<Rightarrow>
                           WriteConfig_members e (InitDir (Stack p)) (Members (Stack p)) s'
                       | r \<Rightarrow> r)))"

subsection \<open>\<open>FirstTimeSetup\<close>\<close>

fun FirstTimeSetup_members ::
  "'w env \<Rightarrow> Member list \<Rightarrow> 'w state \<Rightarrow> go_error option outcome \<times> 'w state" where
  "FirstTimeSetup_members e [] s = (Return None, s)"
| "FirstTimeSetup_members e (member # rest) s =
     (case assert_ethereum_Account (Account member) of
        Panic p \<Rightarrow> (Panic p, s)
      | Hang \<Rightarrow> (Hang, s)
      | Return account \<Rightarrow>
          on_success (perform e (importAccountToEthsigner (Address account)) s)
            (\<lambda>s. FirstTimeSetup_members e rest s))"

definition FirstTimeSetup ::
  "'w env \<Rightarrow> EthSignerProvider \<Rightarrow> 'w state \<Rightarrow> go_error option outcome \<times> 'w state" where
  "FirstTimeSetup e p s0 =
     (let ethsignerVolumeName = Name (Stack p) @ ''_ethsigner'';
          blockchainDir = filepath_Join [RuntimeDir (Stack p), ''blockchain''];
          contractsDir = filepath_Join [RuntimeDir (Stack p), ''contracts'']
      in on_success (CreateVolume e (provider_ctx p) ethsignerVolumeName s0)
           (\<lambda>s. on_success (perform e (MkdirAll contractsDir 493) s)
              (\<lambda>s. let signerConfigPath =
                          filepath_Join [StackDir (Stack p), ''runtime'', ''config'', ''ethsigner.yaml''];
                        signerConfigVolumeName = Name (Stack p) @ ''_ethsigner_config''
                    in case CopyFileToVolume e (provider_ctx p) signerConfigVolumeName
                              signerConfigPath ''firefly.ffsigner'' s of
                         (Panic pn, s') \<Rightarrow> (Panic pn, s')
                       | (Hang, s') \<Rightarrow> (Hang, s')
                       | (Return ignored, s') \<Rightarrow>
                           on_success (FirstTimeSetup_members e (Members (Stack p)) s')
                             (\<lambda>s. on_success
                                (CopyFileToVolume e (provider_ctx p) ethsignerVolumeName
                                   (path_Join [blockchainDir, ''password'']) ''password'' s)
                                (\<lambda>s. (Return None, s))))))"

subsection \<open>\<open>getCommand\<close> and \<open>GetDockerServiceDefinition\<close>\<close>

text \<open>
  What \<open>getCommand\<close> reads from the \<open>*url.URL\<close> that \<open>url.Parse\<close> returns: the field
  \<open>Scheme\<close>, the results of the methods \<open>Hostname()\<close> and \<open>Port()\<close>, and the field
  \<open>Path\<close>. The standard library's parser is a parameter of the model.
\<close>

record URL =
  Scheme :: string
  Hostname :: string
  Port :: string
  URL_Path :: string

definition invalid_url_panic :: "string \<Rightarrow> go_error option \<Rightarrow> panic" where
  "invalid_url_panic rpcURL err =
     PanicError (GoError (''RPC URL invalid '' @ [CHR 0x27] @ rpcURL @ [CHR 0x27] @ '': '' @
       (case err of Some (GoError msg) \<Rightarrow> msg | None \<Rightarrow> ''%!s(<nil>)'')))"

text \<open>\<open>javaSigner\<close> is the value the constant \<open>useJavaSigner\<close> is compiled with.\<close>

definition getCommand ::
  "bool \<Rightarrow> (string \<Rightarrow> go_error + URL) \<Rightarrow> EthSignerProvider \<Rightarrow> string \<Rightarrow> string outcome" where
  "getCommand javaSigner url_Parse p rpcURL =
     (if \<not> javaSigner then Return []
      else case url_Parse rpcURL of
             Inl err \<Rightarrow> Panic (invalid_url_panic rpcURL (Some err))
           | Inr u \<Rightarrow>
               if rpcURL = [] then Panic (invalid_url_panic rpcURL None)
               else
                 let c0 = [] @ [''--logging=DEBUG''];
                     c1 = c0 @ [''--chain-id='' @ show_int (ChainID (Stack p))];
                     c2 = c1 @ [''--downstream-http-host='' @ Hostname u];
                     port = Port u;
                     c3 = (if Scheme u = ''https'' then c2 @ [''--downstream-http-tls-enabled''] else c2);
                     port = (if Scheme u = ''https'' \<and> port = [] then ''443'' else port);
                     c4 = (if URL_Path u \<noteq> [] \<and> URL_Path u \<noteq> ''/''
                           then c3 @ [''--downstream-http-path='' @ URL_Path u] else c3);
                     c5 = c4 @ [''--downstream-http-port='' @ port];
                     c6 = c5 @ [''multikey-signer''];
                     ethsignerCommand = c6 @ [''--directory=/data/keystore'']
                 in Return (strings_Join ethsignerCommand '' ''))"

text \<open>The body of the health check's request; \<open>quote\<close> is the double-quote character.\<close>

definition quote :: string where
  "quote = [CHR 0x22]"

definition net_version_request :: string where
  "net_version_request =
     ''{'' @ quote @ ''jsonrpc'' @ quote @ '':'' @ quote @ ''2.0'' @ quote @ '','' @
     quote @ ''method'' @ quote @ '':'' @ quote @ ''net_version'' @ quote @ '','' @
     quote @ ''params'' @ quote @ '':[],'' @
     quote @ ''id'' @ quote @ '':'' @ quote @ ''1'' @ quote @ ''}''"

record HealthCheck =
  Test :: "string list"
  Interval :: string
  Retries :: int

record 'l Service =
  Image :: string
  ContainerName :: string
  User :: string
  Command :: string
  Volumes :: "string list"
  Logging :: 'l
  Service_HealthCheck :: "HealthCheck option"
  Ports :: "string list"

record 'l ServiceDefinition =
  ServiceName :: string
  Service :: "'l Service"
  VolumeNames :: "string list"

text \<open>The loop that builds \<open>addresses\<close>, from index \<open>i\<close>, over \<open>n\<close> members in all.\<close>

fun addresses_loop :: "Member list \<Rightarrow> nat \<Rightarrow> nat \<Rightarrow> string \<Rightarrow> string outcome" where
  "addresses_loop [] i n addresses = Return addresses"
| "addresses_loop (member # rest) i n addresses =
     (case assert_ethereum_Account (Account member) of
        Panic p \<Rightarrow> Panic p
      | Hang \<Rightarrow> Hang
      | Return account \<Rightarrow>
          (let addresses = addresses @ Address account;
               addresses = (if i + 1 < n then addresses @ '','' else addresses)
           in addresses_loop rest (i + 1) n addresses))"

text \<open>\<open>standardLogOptions\<close> is \<open>docker.StandardLogOptions\<close>, declared in another file.\<close>

definition GetDockerServiceDefinition ::
  "bool \<Rightarrow> (string \<Rightarrow> go_error + URL) \<Rightarrow> 'l \<Rightarrow> EthSignerProvider \<Rightarrow> string \<Rightarrow>
     'l ServiceDefinition outcome" where
  "GetDockerServiceDefinition javaSigner url_Parse standardLogOptions p rpcURL =
     (case addresses_loop (Members (Stack p)) 0 (length (Members (Stack p))) [] of
        Panic pn \<Rightarrow> Panic pn
      | Hang \<Rightarrow> Hang
      | Return addresses \<Rightarrow>
          (case getCommand javaSigner url_Parse p rpcURL of
             Panic pn \<Rightarrow> Panic pn
           | Hang \<Rightarrow> Hang
           | Return command \<Rightarrow>
               Return
                 \<lparr>ServiceName = ''ethsigner'',
                  Service =
                    \<lparr>Image = ethsignerImage,
                     ContainerName = Name (Stack p) @ ''_ethsigner'',
                     User = ''root'',
                     Command = command,
                     Volumes = [''ethsigner:/data'', ''ethsigner_config:/etc/firefly''],
                     Logging = standardLogOptions,
                     Service_HealthCheck = Some
                       \<lparr>Test = [''CMD'', ''curl'', ''-X'', ''POST'', ''-H'',
                                ''Content-Type: application/json'', ''-d'',
                                net_version_request,
                                ''-w'', ''%{http_code}'', ''-sS'', ''--fail'',
                                ''http://localhost:8545/''],
                        Interval = ''15s'',
                        Retries = 60\<rparr>,
                     Ports = [show_int (ExposedBlockchainPort (Stack p)) @ '':8545'']\<rparr>,
                  VolumeNames = [''ethsigner'', ''ethsigner_config'']\<rparr>))"

section \<open>Observations on a run\<close>

text \<open>
  The commands a log shows as started, in order, and the lines a sequence of receives
  delivers, in order.
\<close>

fun started :: "action list \<Rightarrow> Cmd list" where
  "started [] = []"
| "started (Called c r # as) = started as"
| "started (Started cmd proc # as) = cmd # started as"

fun all_lines :: "chan_recv list \<Rightarrow> string" where
  "all_lines [] = []"
| "all_lines (Stdout r # rs) = (case r of None \<Rightarrow> [] | Some l \<Rightarrow> l) @ all_lines rs"
| "all_lines (Stderr r # rs) = (case r of None \<Rightarrow> [] | Some l \<Rightarrow> l) @ all_lines rs"
| "all_lines (ErrChan err # rs) = all_lines rs"

text \<open>The state after \<open>n\<close> invocations of the same docker command, one after the other.\<close>

fun after_invocations ::
  "'w env \<Rightarrow> Context \<Rightarrow> string \<Rightarrow> string list \<Rightarrow> nat \<Rightarrow> 'w state \<Rightarrow> 'w state" where
  "after_invocations e ctx workingDir command 0 s = s"
| "after_invocations e ctx workingDir command (Suc n) s =
     after_invocations e ctx workingDir command n (snd (RunDockerCommand e ctx workingDir command s))"

text \<open>Whether \<open>zs\<close> takes the elements of \<open>xs\<close> and of \<open>ys\<close>, each list in its own order.\<close>

fun interleaves :: "'a list \<Rightarrow> 'a list \<Rightarrow> 'a list \<Rightarrow> bool" where
  "interleaves [] ys zs = (ys = zs)"
| "interleaves (x # xs) [] zs = (x # xs = zs)"
| "interleaves (x # xs) (y # ys) [] = False"
| "interleaves (x # xs) (y # ys) (z # zs) =
     ((x = z \<and> interleaves xs (y # ys) zs) \<or> (y = z \<and> interleaves (x # xs) ys zs))"


fun is_close :: "chan_recv \<Rightarrow> bool" where
  "is_close (Stdout None) = True"
| "is_close (Stderr None) = True"
| "is_close r = False"

text \<open>
  The part of the log a call added; whether a logged step succeeded (a request returned
  nil, a command ran to the end of its capture loop and exited with code 0); and the
  requests and commands of \<open>FirstTimeSetup\<close>, by name.
\<close>

definition exits_cleanly :: "bool \<Rightarrow> process \<Rightarrow> bool" where
  "exits_cleanly verbose proc =
     (case fst (outputCapture False verbose (arrivals proc) []
                  \<lparr>world = (), trace = [], console = []\<rparr>) of
        Broke outputBuff \<Rightarrow> ExitCode proc = 0
      | Failed err \<Rightarrow> False
      | Blocked \<Rightarrow> False)"

fun step_ok :: "bool \<Rightarrow> action \<Rightarrow> bool" where
  "step_ok verbose (Called c r) = (r = None)"
| "step_ok verbose (Started cmd proc) = exits_cleanly verbose proc"

definition new_trace :: "'w state \<Rightarrow> 'w state \<Rightarrow> action list" where
  "new_trace s s' = drop (length (trace s)) (trace s')"

definition member_address :: "Member \<Rightarrow> string" where
  "member_address m = (case Account m of EthereumAccount (Some a) \<Rightarrow> Address a | _ \<Rightarrow> [])"

definition import_ok :: "string \<Rightarrow> action" where
  "import_ok address = Called (importAccountToEthsigner address) None"

definition create_volume_cmd :: "EthSignerProvider \<Rightarrow> Cmd" where
  "create_volume_cmd p =
     \<lparr>Path = ''docker'', Args = ''docker'' # CreateVolume_args (Name (Stack p) @ ''_ethsigner''),
      Dir = ''.''\<rparr>"

definition config_copy_cmd :: "EthSignerProvider \<Rightarrow> Cmd" where
  "config_copy_cmd p =
     \<lparr>Path = ''docker'',
      Args = ''docker'' # CopyFileToVolume_args (Name (Stack p) @ ''_ethsigner_config'')
               (filepath_Join [StackDir (Stack p), ''runtime'', ''config'', ''ethsigner.yaml''])
               ''firefly.ffsigner'',
      Dir = ''.''\<rparr>"

definition password_copy_cmd :: "EthSignerProvider \<Rightarrow> Cmd" where
  "password_copy_cmd p =
     \<lparr>Path = ''docker'',
      Args = ''docker'' # CopyFileToVolume_args (Name (Stack p) @ ''_ethsigner'')
               (path_Join [filepath_Join [RuntimeDir (Stack p), ''blockchain''], ''password''])
               ''password'',
      Dir = ''.''\<rparr>"

definition contracts_mkdir :: "EthSignerProvider \<Rightarrow> syscall" where
  "contracts_mkdir p = MkdirAll (filepath_Join [RuntimeDir (Stack p), ''contracts'']) 493"

section \<open>Example stacks and environments\<close>

text \<open>
  Concrete environments on which the theorems below are instantiated: the world counts
  the commands started so far, requests to the host are answered by \<open>sysf\<close>, the
  \<open>n\<close>-th command started behaves as \<open>startf cmd n\<close>, and every binary is found in
  \<open>/usr/bin\<close>.
\<close>

definition ok_process :: process where
  "ok_process = \<lparr>arrivals = [Stdout (Some ''done\<newline>''), Stdout None, Stderr None], ExitCode = 0\<rparr>"

definition failing_process :: process where
  "failing_process = \<lparr>arrivals = [Stderr (Some ''boom\<newline>''), Stdout None, Stderr None], ExitCode = 1\<rparr>"

definition scripted :: "(syscall \<Rightarrow> go_error option) \<Rightarrow> (Cmd \<Rightarrow> nat \<Rightarrow> process) \<Rightarrow> nat env" where
  "scripted sysf startf =
     \<lparr>sys = (\<lambda>c w. (sysf c, w)), start = (\<lambda>cmd n. (startf cmd n, Suc n)),
      lookPath = (\<lambda>name. Some (''/usr/bin/'' @ name))\<rparr>"

definition fresh :: "nat state" where
  "fresh = \<lparr>world = 0, trace = [], console = []\<rparr>"

definition quiet_ctx :: Context where
  "quiet_ctx = \<lparr>VerbosityFromContext = False, CtxIsLogCmdKey = None, CtxComposeVersionKey = None\<rparr>"

definition compose_ctx :: "DockerComposeVersion option \<Rightarrow> Context" where
  "compose_ctx v = \<lparr>VerbosityFromContext = False, CtxIsLogCmdKey = None, CtxComposeVersionKey = v\<rparr>"

definition always :: "process \<Rightarrow> nat env" where
  "always proc = scripted (\<lambda>c. None) (\<lambda>cmd n. proc)"

definition flaky :: "nat \<Rightarrow> nat env" where
  "flaky k = scripted (\<lambda>c. None) (\<lambda>cmd n. if n < k then failing_process else ok_process)"

definition early_close_process :: process where
  "early_close_process =
     \<lparr>arrivals = [Stderr None, Stdout (Some ''hello\<newline>''), Stdout None], ExitCode = 0\<rparr>"

definition two_stream_process :: process where
  "two_stream_process =
     \<lparr>arrivals = [Stdout (Some ''out\<newline>''), Stdout None, Stderr (Some ''err\<newline>''), Stderr None],
      ExitCode = 0\<rparr>"

definition verbose_ctx :: Context where
  "verbose_ctx = \<lparr>VerbosityFromContext = True, CtxIsLogCmdKey = None, CtxComposeVersionKey = None\<rparr>"

definition docker_ps :: Cmd where
  "docker_ps = (exec_Command ''docker'' [''ps''])\<lparr>Dir := ''.''\<rparr>"

definition demo_stack :: Stack where
  "demo_stack =
     \<lparr>Name = ''dev'',
      Members = [\<lparr>Account = EthereumAccount (Some \<lparr>Address = ''0xa1'', PrivateKey = ''k1''\<rparr>)\<rparr>,
                 \<lparr>Account = EthereumAccount (Some \<lparr>Address = ''0xb2'', PrivateKey = ''k2''\<rparr>)\<rparr>,
                 \<lparr>Account = EthereumAccount (Some \<lparr>Address = ''0xc3'', PrivateKey = ''k3''\<rparr>)\<rparr>],
      InitDir = ''/stacks/dev/init'',
      RuntimeDir = ''/stacks/dev/runtime'',
      StackDir = ''/stacks/dev'',
      ExposedBlockchainPort = 5100,
      ChainID = 2021\<rparr>"

definition demo_provider :: EthSignerProvider where
  "demo_provider = \<lparr>Verbose = False, Stack = demo_stack\<rparr>"

definition demo_options :: InitOptions where
  "demo_options = \<lparr>InitOptions_ChainID = 2021\<rparr>"

fun signer_config_denied :: "syscall \<Rightarrow> go_error option" where
  "signer_config_denied (SignerConfig_WriteConfig chainID rpcURL path) = Some (GoError ''permission denied'')"
| "signer_config_denied c = None"

definition config_write_fails :: "nat env" where
  "config_write_fails = scripted signer_config_denied (\<lambda>cmd n. ok_process)"

definition config_copy_fails :: "nat env" where
  "config_copy_fails =
     scripted (\<lambda>c. None)
       (\<lambda>cmd n. if ''dev_ethsigner_config:/dest'' \<in> set (Args cmd) then failing_process else ok_process)"

definition sample_url_Parse :: "string \<Rightarrow> go_error + URL" where
  "sample_url_Parse rawURL =
     (if rawURL = ''https://rpc.example:9999/v1''
      then Inr \<lparr>Scheme = ''https'', Hostname = ''rpc.example'', Port = ''9999'', URL_Path = ''/v1''\<rparr>
      else if rawURL = ''http://rpc.local''
      then Inr \<lparr>Scheme = ''http'', Hostname = ''rpc.local'', Port = [], URL_Path = []\<rparr>
      else if rawURL = ''https://rpc.example''
      then Inr \<lparr>Scheme = ''https'', Hostname = ''rpc.example'', Port = [], URL_Path = []\<rparr>
      else if rawURL = []
      then Inr \<lparr>Scheme = [], Hostname = [], Port = [], URL_Path = []\<rparr>
      else Inl (GoError ''parse error''))"

definition second_import_fails :: "nat env" where
  "second_import_fails =
     scripted (\<lambda>c. if c = importAccountToEthsigner ''0xb2'' then Some (GoError ''import failed'') else None)
       (\<lambda>cmd n. ok_process)"

definition mixed_stack :: Stack where
  "mixed_stack =
     demo_stack\<lparr>Members :=
       [\<lparr>Account = EthereumAccount (Some \<lparr>Address = ''0xa1'', PrivateKey = ''k1''\<rparr>)\<rparr>,
        \<lparr>Account = OtherAccount\<rparr>,
        \<lparr>Account = EthereumAccount (Some \<lparr>Address = ''0xc3'', PrivateKey = ''k3''\<rparr>)\<rparr>]\<rparr>"

definition mixed_provider :: EthSignerProvider where
  "mixed_provider = \<lparr>Verbose = False, Stack = mixed_stack\<rparr>"

fun mkdir_denied :: "syscall \<Rightarrow> go_error option" where
  "mkdir_denied (MkdirAll path perm) = Some (GoError ''read-only file system'')"
| "mkdir_denied c = None"

definition mkdir_fails :: "nat env" where
  "mkdir_fails = scripted mkdir_denied (\<lambda>cmd n. ok_process)"

definition first_import_fails :: "nat env" where
  "first_import_fails =
     scripted (\<lambda>c. if c = importAccountToEthsigner ''0xa1'' then Some (GoError ''import failed'') else None)
       (\<lambda>cmd n. ok_process)"

section \<open>Properties of the process runner\<close>

lemma show_int_1: "show_int 1 = ''1''"
  by code_simp

lemma started_append: "started (xs @ ys) = started xs @ started ys"
  by (induction xs rule: started.induct) simp_all

lemma outputCapture_fst:
  "fst (outputCapture il v rs buf s) = fst (outputCapture il v rs buf s')"
proof (induction rs arbitrary: buf s s')
  case Nil
  show ?case by simp
next
  case (Cons r rs)
  show ?case
  proof (cases r)
    case (Stdout x)
    then show ?thesis using Cons.IH by (cases x) (auto simp: Let_def)
  next
    case (Stderr x)
    then show ?thesis using Cons.IH by (cases x) (auto simp: Let_def)
  next
    case (ErrChan err)
    then show ?thesis by simp
  qed
qed

lemma outputCapture_trace: "trace (snd (outputCapture il v rs buf s)) = trace s"
proof (induction rs arbitrary: buf s)
  case Nil
  show ?case by simp
next
  case (Cons r rs)
  show ?case
  proof (cases r)
    case (Stdout x)
    then show ?thesis using Cons.IH by (cases x) (auto simp: Let_def fmt_Print_def)
  next
    case (Stderr x)
    then show ?thesis using Cons.IH by (cases x) (auto simp: Let_def fmt_Print_def)
  next
    case (ErrChan err)
    then show ?thesis by simp
  qed
qed

lemma outputCapture_world: "world (snd (outputCapture il v rs buf s)) = world s"
proof (induction rs arbitrary: buf s)
  case Nil
  show ?case by simp
next
  case (Cons r rs)
  show ?case
  proof (cases r)
    case (Stdout x)
    then show ?thesis using Cons.IH by (cases x) (auto simp: Let_def fmt_Print_def)
  next
    case (Stderr x)
    then show ?thesis using Cons.IH by (cases x) (auto simp: Let_def fmt_Print_def)
  next
    case (ErrChan err)
    then show ?thesis by simp
  qed
qed

lemma runCommand_trace:
  "trace (snd (runCommand e ctx cmd s)) = trace s @ [Started cmd (fst (start e cmd (world s)))]"
proof -
  obtain proc w' where st: "start e cmd (world s) = (proc, w')"
    by (cases "start e cmd (world s)")
  let ?s1 = "if VerbosityFromContext ctx then fmt_Println (cmd_String e cmd) s else s"
  let ?s2 = "?s1\<lparr>world := w', trace := trace ?s1 @ [Started cmd proc]\<rparr>"
  let ?il = "case CtxIsLogCmdKey ctx of Some b \<Rightarrow> b | None \<Rightarrow> False"
  obtain c s3 where oc: "outputCapture ?il (VerbosityFromContext ctx) (arrivals proc) [] ?s2 = (c, s3)"
    by (cases "outputCapture ?il (VerbosityFromContext ctx) (arrivals proc) [] ?s2")
  have "trace s3 = trace ?s2"
    using outputCapture_trace [of ?il "VerbosityFromContext ctx" "arrivals proc" "[]" ?s2] oc by simp
  then show ?thesis
    using oc st
    by (cases c) (auto simp: runCommand_def Let_def fmt_Println_def fmt_Print_def)
qed

lemma runCommand_world: "world (snd (runCommand e ctx cmd s)) = snd (start e cmd (world s))"
proof -
  obtain proc w' where st: "start e cmd (world s) = (proc, w')"
    by (cases "start e cmd (world s)")
  let ?s1 = "if VerbosityFromContext ctx then fmt_Println (cmd_String e cmd) s else s"
  let ?s2 = "?s1\<lparr>world := w', trace := trace ?s1 @ [Started cmd proc]\<rparr>"
  let ?il = "case CtxIsLogCmdKey ctx of Some b \<Rightarrow> b | None \<Rightarrow> False"
  obtain c s3 where oc: "outputCapture ?il (VerbosityFromContext ctx) (arrivals proc) [] ?s2 = (c, s3)"
    by (cases "outputCapture ?il (VerbosityFromContext ctx) (arrivals proc) [] ?s2")
  have "world s3 = world ?s2"
    using outputCapture_world [of ?il "VerbosityFromContext ctx" "arrivals proc" "[]" ?s2] oc by simp
  then show ?thesis
    using oc st
    by (cases c) (auto simp: runCommand_def Let_def fmt_Println_def fmt_Print_def)
qed

lemma runCommand_fst:
  assumes "start e cmd (world s) = (proc, w)"
  shows "fst (runCommand e ctx cmd s) =
     (case fst (outputCapture (case CtxIsLogCmdKey ctx of Some b \<Rightarrow> b | None \<Rightarrow> False)
                   (VerbosityFromContext ctx) (arrivals proc) [] s) of
        Blocked \<Rightarrow> Hang
      | Failed err \<Rightarrow> Return ([], Some err)
      | Broke outputBuff \<Rightarrow>
          if ExitCode proc \<noteq> 0
          then Return ([], Some (GoError (strings_Join (Args cmd) '' '' @ '' ['' @
                 show_int (ExitCode proc) @ ''] '' @ outputBuff)))
          else Return (outputBuff, None))"
proof -
  let ?s1 = "if VerbosityFromContext ctx then fmt_Println (cmd_String e cmd) s else s"
  let ?s2 = "?s1\<lparr>world := w, trace := trace ?s1 @ [Started cmd proc]\<rparr>"
  let ?il = "case CtxIsLogCmdKey ctx of Some b \<Rightarrow> b | None \<Rightarrow> False"
  obtain c s3 where oc: "outputCapture ?il (VerbosityFromContext ctx) (arrivals proc) [] ?s2 = (c, s3)"
    by (cases "outputCapture ?il (VerbosityFromContext ctx) (arrivals proc) [] ?s2")
  have "fst (outputCapture ?il (VerbosityFromContext ctx) (arrivals proc) [] s) = c"
    using outputCapture_fst [of ?il "VerbosityFromContext ctx" "arrivals proc" "[]" s ?s2] oc by simp
  moreover have "world ?s1 = world s"
    by (simp add: fmt_Println_def fmt_Print_def)
  ultimately show ?thesis
    using oc assms
    by (cases c) (simp_all add: runCommand_def Let_def)
qed

lemma drop_output_snd: "snd (drop_output r) = snd r"
  by (cases r) (auto simp: drop_output_def split: outcome.splits)

lemma drop_output_fst:
  "fst (drop_output r) = (case fst r of Return (out, err) \<Rightarrow> Return err | Panic pn \<Rightarrow> Panic pn | Hang \<Rightarrow> Hang)"
  by (cases r) (auto simp: drop_output_def split: outcome.splits)

subsection \<open>The capture loop\<close>

lemma outputCapture_prefix:
  "fst (outputCapture il v rs buf (s :: 'w state)) = Broke out \<Longrightarrow>
   \<exists>pre post. rs = pre @ post \<and> out = buf @ all_lines pre"
proof (induction rs arbitrary: buf s)
  case Nil
  then show ?case by simp
next
  case (Cons r rs)
  have here: ?case if "out = buf"
  proof -
    have "r # rs = [] @ (r # rs) \<and> out = buf @ all_lines []" using that by simp
    then show ?thesis by blast
  qed
  have later: ?case
    if "fst (outputCapture il v rs (buf @ l) s') = Broke out" and "all_lines [r] = l"
    for l and s' :: "'w state"
  proof -
    from Cons.IH [OF that(1)] obtain pre post where "rs = pre @ post" "out = (buf @ l) @ all_lines pre"
      by blast
    then have "r # rs = (r # pre) @ post \<and> out = buf @ all_lines (r # pre)"
      using that(2) by (cases r) (auto split: option.splits)
    then show ?thesis by blast
  qed
  show ?case
  proof (cases r)
    case (Stdout x)
    show ?thesis
    proof (cases x)
      case None
      show ?thesis
      proof (cases "il \<or> v")
        case True
        with Cons.prems have "out = buf" by (auto simp: Stdout None Let_def)
        then show ?thesis by (rule here)
      next
        case False
        with Cons.prems have "fst (outputCapture il v rs (buf @ []) s) = Broke out"
          by (auto simp: Stdout None Let_def)
        then show ?thesis by (rule later) (simp add: Stdout None)
      qed
    next
      case (Some l)
      from Cons.prems have "fst (outputCapture il v rs (buf @ l) s) = Broke out \<or>
                            fst (outputCapture il v rs (buf @ l) (fmt_Print l s)) = Broke out"
        by (auto simp: Stdout Some Let_def split: if_splits)
      then show ?thesis
      proof
        assume "fst (outputCapture il v rs (buf @ l) s) = Broke out"
        then show ?thesis by (rule later) (simp add: Stdout Some)
      next
        assume "fst (outputCapture il v rs (buf @ l) (fmt_Print l s)) = Broke out"
        then show ?thesis by (rule later) (simp add: Stdout Some)
      qed
    qed
  next
    case (Stderr x)
    show ?thesis
    proof (cases x)
      case None
      with Cons.prems have "out = buf" by (auto simp: Stderr Let_def)
      then show ?thesis by (rule here)
    next
      case (Some l)
      from Cons.prems have "fst (outputCapture il v rs (buf @ l) s) = Broke out \<or>
                            fst (outputCapture il v rs (buf @ l) (fmt_Print l s)) = Broke out"
        by (auto simp: Stderr Some Let_def split: if_splits)
      then show ?thesis
      proof
        assume "fst (outputCapture il v rs (buf @ l) s) = Broke out"
        then show ?thesis by (rule later) (simp add: Stderr Some)
      next
        assume "fst (outputCapture il v rs (buf @ l) (fmt_Print l s)) = Broke out"
        then show ?thesis by (rule later) (simp add: Stderr Some)
      qed
    qed
  next
    case (ErrChan err)
    with Cons.prems show ?thesis by simp
  qed
qed

lemma readPipe_unterminated: "readPipe outputChan ''no newline'' = [outputChan None]"
  by (simp add: readPipe_def)



lemma all_lines_append: "all_lines (xs @ ys) = all_lines xs @ all_lines ys"
  by (induction xs rule: all_lines.induct) simp_all

lemma all_lines_closes: "list_all is_close cs \<Longrightarrow> all_lines cs = []"
  by (induction cs rule: all_lines.induct) (auto split: option.splits)

text \<open>
  C9 fails on the code. A command writes the line \<open>hello\<close> to stdout, nothing to
  stderr, and exits 0; the receives are an interleaving of what the two drainers send,
  with the closed stderr channel first: the loop ends with stdout still open, the line
  is lost and the output is empty. And the output depends on the flags, because the
  closed-channel test of the stdout branch sits inside the verbosity test and the one of
  the stderr branch does not: with stdout closing before the last stderr line, the quiet
  run returns both lines and the verbose run only the first.
\<close>

theorem runCommand_capture_counterexample:
  "interleaves (readPipe Stdout ''hello\<newline>'') (readPipe Stderr []) (arrivals early_close_process) \<and>
   ExitCode early_close_process = 0 \<and>
   all_lines (arrivals early_close_process) = ''hello\<newline>'' \<and>
   fst (runCommand (always early_close_process) quiet_ctx docker_ps fresh) = Return ([], None) \<and>
   interleaves (readPipe Stdout ''out\<newline>'') (readPipe Stderr ''err\<newline>'')
     (arrivals two_stream_process) \<and>
   ExitCode two_stream_process = 0 \<and>
   all_lines (arrivals two_stream_process) = ''out\<newline>err\<newline>'' \<and>
   fst (runCommand (always two_stream_process) quiet_ctx docker_ps fresh) = Return (''out\<newline>err\<newline>'', None) \<and>
   fst (runCommand (always two_stream_process) verbose_ctx docker_ps fresh) = Return (''out\<newline>'', None)"
  by (simp add: runCommand_def always_def scripted_def early_close_process_def
        two_stream_process_def quiet_ctx_def verbose_ctx_def fresh_def Let_def fmt_Println_def
        fmt_Print_def readPipe_def)

subsection \<open>The process runner's classification of the exit code\<close>



subsection \<open>The compose dispatcher\<close>

text \<open>
  C5. \<open>RunDockerComposeCommand\<close> by cases on the variant in the context. With
  \<open>ComposeV1\<close> it is the process runner on the binary \<open>docker-compose\<close> with the
  arguments unchanged, and that is the one command it starts; with \<open>ComposeV2\<close> it is
  the process runner on the binary \<open>docker\<close> with \<open>compose\<close> put before the arguments;
  with any other value, or none, it returns the configuration error and leaves the state
  as it was, so no command is started.
\<close>
theorem RunDockerComposeCommand_dispatch:
  "(CtxComposeVersionKey ctx = Some ComposeV1 \<longrightarrow>
      RunDockerComposeCommand e ctx dir command s =
        drop_output (runCommand e ctx
          \<lparr>Path = ''docker-compose'', Args = ''docker-compose'' # command, Dir = dir\<rparr> s) \<and>
      started (trace (snd (RunDockerComposeCommand e ctx dir command s))) =
        started (trace s) @
          [\<lparr>Path = ''docker-compose'', Args = ''docker-compose'' # command, Dir = dir\<rparr>]) \<and>
   (CtxComposeVersionKey ctx = Some ComposeV2 \<longrightarrow>
      RunDockerComposeCommand e ctx dir command s =
        drop_output (runCommand e ctx
          \<lparr>Path = ''docker'', Args = ''docker'' # ''compose'' # command, Dir = dir\<rparr> s) \<and>
      started (trace (snd (RunDockerComposeCommand e ctx dir command s))) =
        started (trace s) @
          [\<lparr>Path = ''docker'', Args = ''docker'' # ''compose'' # command, Dir = dir\<rparr>]) \<and>
   (CtxComposeVersionKey ctx \<noteq> Some ComposeV1 \<and> CtxComposeVersionKey ctx \<noteq> Some ComposeV2 \<longrightarrow>
      RunDockerComposeCommand e ctx dir command s =
        (Return (Some (GoError ''No version for docker-compose has been detected.'')), s))"
  by (simp add: RunDockerComposeCommand_def exec_Command_def drop_output_snd runCommand_trace
        started_append ComposeV1_def ComposeV2_def)

theorem RunDockerComposeCommand_dispatch_witness:
  "started (trace (snd (RunDockerComposeCommand (always ok_process)
      (compose_ctx (Some ComposeV1)) ''/stacks/dev'' [''up'', ''-d''] fresh))) =
     [\<lparr>Path = ''docker-compose'', Args = [''docker-compose'', ''up'', ''-d''], Dir = ''/stacks/dev''\<rparr>] \<and>
   started (trace (snd (RunDockerComposeCommand (always ok_process)
      (compose_ctx (Some ComposeV2)) ''/stacks/dev'' [''up'', ''-d''] fresh))) =
     [\<lparr>Path = ''docker'', Args = [''docker'', ''compose'', ''up'', ''-d''], Dir = ''/stacks/dev''\<rparr>] \<and>
   RunDockerComposeCommand (always ok_process)
      (compose_ctx (Some None_version)) ''/stacks/dev'' [''up'', ''-d''] fresh =
     (Return (Some (GoError ''No version for docker-compose has been detected.'')), fresh) \<and>
   RunDockerComposeCommand (always ok_process)
      (compose_ctx None) ''/stacks/dev'' [''up'', ''-d''] fresh =
     (Return (Some (GoError ''No version for docker-compose has been detected.'')), fresh)"
  using RunDockerComposeCommand_dispatch [of "compose_ctx (Some ComposeV1)"
          "always ok_process" "''/stacks/dev''" "[''up'', ''-d'']" fresh]
        RunDockerComposeCommand_dispatch [of "compose_ctx (Some ComposeV2)"
          "always ok_process" "''/stacks/dev''" "[''up'', ''-d'']" fresh]
        RunDockerComposeCommand_dispatch [of "compose_ctx (Some None_version)"
          "always ok_process" "''/stacks/dev''" "[''up'', ''-d'']" fresh]
        RunDockerComposeCommand_dispatch [of "compose_ctx None"
          "always ok_process" "''/stacks/dev''" "[''up'', ''-d'']" fresh]
  by (simp add: compose_ctx_def ComposeV1_def ComposeV2_def None_version_def fresh_def
        drop_output_snd runCommand_trace always_def scripted_def)

subsection \<open>The retrying invoker\<close>

lemma RunDockerCommandRetry_from_eq:
  assumes "\<forall>i<k. \<exists>err. fst (RunDockerCommand e ctx dir command
                            (after_invocations e ctx dir command i s)) = Return (Some err)"
      and "fst (RunDockerCommand e ctx dir command (after_invocations e ctx dir command k s)) =
             Return None"
  shows "RunDockerCommandRetry_from e ctx dir retries command attempt s =
           (if int k \<le> retries - attempt
            then (Return None, after_invocations e ctx dir command (Suc k) s)
            else RunDockerCommand e ctx dir command
                   (after_invocations e ctx dir command (nat (retries - attempt)) s))"
  using assms
proof (induction k arbitrary: attempt s)
  case 0
  obtain r s' where rs: "RunDockerCommand e ctx dir command s = (r, s')"
    by (cases "RunDockerCommand e ctx dir command s")
  with "0.prems"(2) have r: "r = Return None" by simp
  have neg: "retries - attempt < 0 \<Longrightarrow> nat (retries - attempt) = 0" by simp
  show ?case
    by (subst RunDockerCommandRetry_from.simps) (simp add: rs r)
next
  case (Suc k)
  obtain r s' where rs: "RunDockerCommand e ctx dir command s = (r, s')"
    by (cases "RunDockerCommand e ctx dir command s")
  from Suc.prems(1) have "\<exists>err. fst (RunDockerCommand e ctx dir command
        (after_invocations e ctx dir command 0 s)) = Return (Some err)"
    by blast
  then obtain err where r: "r = Return (Some err)" using rs by auto
  have fails': "\<forall>i<k. \<exists>err. fst (RunDockerCommand e ctx dir command
                   (after_invocations e ctx dir command i s')) = Return (Some err)"
  proof (intro allI impI)
    fix i assume "i < k"
    then have "Suc i < Suc k" by simp
    with Suc.prems(1) have "\<exists>err. fst (RunDockerCommand e ctx dir command
        (after_invocations e ctx dir command (Suc i) s)) = Return (Some err)"
      by blast
    then show "\<exists>err. fst (RunDockerCommand e ctx dir command
                   (after_invocations e ctx dir command i s')) = Return (Some err)"
      by (simp add: rs)
  qed
  have succ': "fst (RunDockerCommand e ctx dir command (after_invocations e ctx dir command k s')) =
                 Return None"
    using Suc.prems(2) by (simp add: rs)
  note IH = Suc.IH [OF fails' succ', of "attempt + 1"]
  show ?case
  proof (cases "attempt < retries")
    case True
    then have n: "nat (retries - attempt) = Suc (nat (retries - (attempt + 1)))" by simp
    have c: "int k \<le> retries - (attempt + 1) \<longleftrightarrow> int (Suc k) \<le> retries - attempt"
      unfolding of_nat_Suc by linarith
    have "RunDockerCommandRetry_from e ctx dir retries command attempt s =
            RunDockerCommandRetry_from e ctx dir retries command (attempt + 1) s'"
      by (subst RunDockerCommandRetry_from.simps) (simp add: rs r True)
    also have "\<dots> =
           (if int k \<le> retries - (attempt + 1)
            then (Return None, after_invocations e ctx dir command (Suc k) s')
            else RunDockerCommand e ctx dir command
                   (after_invocations e ctx dir command (nat (retries - (attempt + 1))) s'))"
      by (rule IH)
    also have "\<dots> =
           (if int (Suc k) \<le> retries - attempt
            then (Return None, after_invocations e ctx dir command (Suc (Suc k)) s)
            else RunDockerCommand e ctx dir command
                   (after_invocations e ctx dir command (nat (retries - attempt)) s))"
      unfolding c n by (simp add: rs)
    finally show ?thesis .
  next
    case False
    then have n: "nat (retries - attempt) = 0" by simp
    have c: "\<not> int (Suc k) \<le> retries - attempt"
      using False of_nat_0_le_iff [of k, where ?'a = int] unfolding of_nat_Suc by linarith
    show ?thesis
      by (subst RunDockerCommandRetry_from.simps) (simp add: rs r False n c [unfolded of_nat_Suc])
  qed
qed

lemma started_after_invocations:
  "length (started (trace (after_invocations e ctx dir command n s))) =
     length (started (trace s)) + n"
  by (induction n arbitrary: s)
     (simp_all add: RunDockerCommand_def drop_output_snd runCommand_trace started_append)

text \<open>
  C4, as amended. Let the underlying command fail on each of its first \<open>k\<close>
  invocations and succeed on the next one. For \<open>0 \<le> retries\<close>: if \<open>k \<le> retries\<close> the
  retrying invoker returns success in the state reached after exactly \<open>k + 1\<close>
  invocations; if \<open>retries < k\<close> it returns what invocation number \<open>retries + 1\<close>
  returns, a failure, after exactly \<open>retries + 1\<close> invocations. For a negative
  \<open>retries\<close> it makes one invocation and returns its result.
\<close>

theorem RunDockerCommandRetry_attempts:
  assumes "\<forall>i<k. \<exists>err. fst (RunDockerCommand e ctx dir command
                            (after_invocations e ctx dir command i s)) = Return (Some err)"
      and "fst (RunDockerCommand e ctx dir command (after_invocations e ctx dir command k s)) =
             Return None"
  shows "(0 \<le> retries \<and> int k \<le> retries \<longrightarrow>
            RunDockerCommandRetry e ctx dir retries command s =
              (Return None, after_invocations e ctx dir command (k + 1) s) \<and>
            length (started (trace (snd (RunDockerCommandRetry e ctx dir retries command s)))) =
              length (started (trace s)) + (k + 1)) \<and>
         (0 \<le> retries \<and> retries < int k \<longrightarrow>
            RunDockerCommandRetry e ctx dir retries command s =
              RunDockerCommand e ctx dir command
                (after_invocations e ctx dir command (nat retries) s) \<and>
            (\<exists>err. fst (RunDockerCommandRetry e ctx dir retries command s) = Return (Some err)) \<and>
            length (started (trace (snd (RunDockerCommandRetry e ctx dir retries command s)))) =
              length (started (trace s)) + (nat retries + 1)) \<and>
         (retries < 0 \<longrightarrow>
            RunDockerCommandRetry e ctx dir retries command s =
              RunDockerCommand e ctx dir command s)"
proof -
  note eq = RunDockerCommandRetry_from_eq [OF assms, of retries 0]
  have count: "length (started (trace (snd (RunDockerCommand e ctx dir command
                  (after_invocations e ctx dir command n s))))) =
               length (started (trace s)) + (n + 1)" for n
    using started_after_invocations [of e ctx dir command "Suc n" s]
          started_after_invocations [of e ctx dir command n s]
    by (simp add: RunDockerCommand_def drop_output_snd runCommand_trace started_append)
  have a: "0 \<le> retries \<and> int k \<le> retries \<longrightarrow>
            RunDockerCommandRetry e ctx dir retries command s =
              (Return None, after_invocations e ctx dir command (k + 1) s) \<and>
            length (started (trace (snd (RunDockerCommandRetry e ctx dir retries command s)))) =
              length (started (trace s)) + (k + 1)"
    using eq started_after_invocations [of e ctx dir command "Suc k" s]
    by (simp add: RunDockerCommandRetry_def)
  have b: "0 \<le> retries \<and> retries < int k \<longrightarrow>
            RunDockerCommandRetry e ctx dir retries command s =
              RunDockerCommand e ctx dir command
                (after_invocations e ctx dir command (nat retries) s) \<and>
            (\<exists>err. fst (RunDockerCommandRetry e ctx dir retries command s) = Return (Some err)) \<and>
            length (started (trace (snd (RunDockerCommandRetry e ctx dir retries command s)))) =
              length (started (trace s)) + (nat retries + 1)"
  proof (intro impI)
    assume h: "0 \<le> retries \<and> retries < int k"
    then have r: "RunDockerCommandRetry e ctx dir retries command s =
              RunDockerCommand e ctx dir command
                (after_invocations e ctx dir command (nat retries) s)"
      using eq by (simp add: RunDockerCommandRetry_def)
    from h have "nat retries < k" by linarith
    with assms(1) have "\<exists>err. fst (RunDockerCommand e ctx dir command
        (after_invocations e ctx dir command (nat retries) s)) = Return (Some err)"
      by blast
    with r count [of "nat retries"]
    show "RunDockerCommandRetry e ctx dir retries command s =
              RunDockerCommand e ctx dir command
                (after_invocations e ctx dir command (nat retries) s) \<and>
            (\<exists>err. fst (RunDockerCommandRetry e ctx dir retries command s) = Return (Some err)) \<and>
            length (started (trace (snd (RunDockerCommandRetry e ctx dir retries command s)))) =
              length (started (trace s)) + (nat retries + 1)"
      by simp
  qed
  have c: "retries < 0 \<longrightarrow>
            RunDockerCommandRetry e ctx dir retries command s =
              RunDockerCommand e ctx dir command s"
    using eq by (simp add: RunDockerCommandRetry_def)
  from a b c show ?thesis by blast
qed

text \<open>
  C4 as stated fails for a negative \<open>retries\<close>: the command fails once and then
  succeeds (\<open>k = 1\<close>), \<open>retries = -1 < k\<close>, and the invoker makes one invocation
  and returns its failure, not \<open>retries + 1 = 0\<close> invocations.
\<close>

theorem RunDockerCommandRetry_negative_counterexample:
  "fst (RunDockerCommand (flaky 1) quiet_ctx ''.'' [''ps''] fresh) =
     Return (Some (GoError ''docker ps [1] boom\<newline>'')) \<and>
   fst (RunDockerCommand (flaky 1) quiet_ctx ''.'' [''ps'']
          (after_invocations (flaky 1) quiet_ctx ''.'' [''ps''] 1 fresh)) = Return None \<and>
   (- 1 :: int) < 1 \<and>
   fst (RunDockerCommandRetry (flaky 1) quiet_ctx ''.'' (- 1) [''ps''] fresh) =
     Return (Some (GoError ''docker ps [1] boom\<newline>'')) \<and>
   int (length (started (trace (snd
     (RunDockerCommandRetry (flaky 1) quiet_ctx ''.'' (- 1) [''ps''] fresh))))) \<noteq> (- 1) + 1"
  by (simp add: RunDockerCommandRetry_def RunDockerCommandRetry_from.simps RunDockerCommand_def
        drop_output_def runCommand_def flaky_def scripted_def failing_process_def ok_process_def
        quiet_ctx_def fresh_def exec_Command_def Let_def show_int_1)

theorem RunDockerCommandRetry_attempts_witness:
  "fst (RunDockerCommand (flaky 2) quiet_ctx ''.'' [''ps'']
       (after_invocations (flaky 2) quiet_ctx ''.'' [''ps''] 0 fresh)) =
     Return (Some (GoError ''docker ps [1] boom\<newline>'')) \<and>
   fst (RunDockerCommand (flaky 2) quiet_ctx ''.'' [''ps'']
       (after_invocations (flaky 2) quiet_ctx ''.'' [''ps''] 1 fresh)) =
     Return (Some (GoError ''docker ps [1] boom\<newline>'')) \<and>
   fst (RunDockerCommand (flaky 2) quiet_ctx ''.'' [''ps'']
       (after_invocations (flaky 2) quiet_ctx ''.'' [''ps''] 2 fresh)) = Return None \<and>
   fst (RunDockerCommandRetry (flaky 2) quiet_ctx ''.'' 5 [''ps''] fresh) = Return None \<and>
   length (started (trace (snd (RunDockerCommandRetry (flaky 2) quiet_ctx ''.'' 5 [''ps''] fresh)))) = 3 \<and>
   fst (RunDockerCommandRetry (flaky 2) quiet_ctx ''.'' 1 [''ps''] fresh) =
     Return (Some (GoError ''docker ps [1] boom\<newline>'')) \<and>
   length (started (trace (snd (RunDockerCommandRetry (flaky 2) quiet_ctx ''.'' 1 [''ps''] fresh)))) = 2 \<and>
   RunDockerCommandRetry (flaky 2) quiet_ctx ''.'' (- 3) [''ps''] fresh =
     RunDockerCommand (flaky 2) quiet_ctx ''.'' [''ps''] fresh"
proof -
  define e where "e = flaky 2"
  have run: "RunDockerCommand e quiet_ctx ''.'' [''ps''] \<lparr>world = n, trace = tr, console = co\<rparr> =
               (if n < 2 then Return (Some (GoError ''docker ps [1] boom\<newline>'')) else Return None,
                \<lparr>world = Suc n, trace = tr @ [Started docker_ps
                    (if n < 2 then failing_process else ok_process)], console = co\<rparr>)" for n tr co
    by (simp add: e_def RunDockerCommand_def drop_output_def runCommand_def flaky_def scripted_def
          failing_process_def ok_process_def quiet_ctx_def exec_Command_def Let_def show_int_1
          docker_ps_def)
  have a0: "after_invocations e quiet_ctx ''.'' [''ps''] 0 fresh = fresh"
    by simp
  have a1: "after_invocations e quiet_ctx ''.'' [''ps''] 1 fresh =
              \<lparr>world = 1, trace = [Started docker_ps failing_process], console = []\<rparr>"
    using after_invocations.simps(2) [of e quiet_ctx "''.''" "[''ps'']" 0 fresh]
    by (simp add: fresh_def run)
  have a2: "after_invocations e quiet_ctx ''.'' [''ps''] 2 fresh =
              \<lparr>world = 2, trace = [Started docker_ps failing_process, Started docker_ps failing_process],
               console = []\<rparr>"
    using after_invocations.simps(2) [of e quiet_ctx "''.''" "[''ps'']" "Suc 0" fresh]
          after_invocations.simps(2) [of e quiet_ctx "''.''" "[''ps'']" 0
            "\<lparr>world = 1, trace = [Started docker_ps failing_process], console = []\<rparr>"]
    by (simp add: fresh_def run numeral_2_eq_2)
  have fails: "\<forall>i<2. \<exists>err. fst (RunDockerCommand e quiet_ctx ''.'' [''ps'']
       (after_invocations e quiet_ctx ''.'' [''ps''] i fresh)) = Return (Some err)"
    using a0 a1 by (auto simp: less_2_cases_iff fresh_def run)
  have succ: "fst (RunDockerCommand e quiet_ctx ''.'' [''ps'']
       (after_invocations e quiet_ctx ''.'' [''ps''] 2 fresh)) = Return None"
    by (simp add: a2 run)
  have n5: "nat 5 = 5" and n1: "nat 1 = 1" by simp_all
  show ?thesis
    using RunDockerCommandRetry_attempts [OF fails succ, of 5]
          RunDockerCommandRetry_attempts [OF fails succ, of 1]
          RunDockerCommandRetry_attempts [OF fails succ, of "- 3"]
          succ a0 a1
    unfolding e_def [symmetric]
    by (simp add: a1 a2 run fresh_def started_after_invocations)
qed

section \<open>Properties of the provisioning sequence\<close>

text \<open>
  C1 fails on the code. The host accepts the directory and the password file and refuses
  the signer configuration (\<open>permission denied\<close>): \<open>WriteConfig\<close> returns nil, the error
  is dropped, and no member's key file is written.
\<close>

theorem WriteConfig_signer_config_failure:
  "WriteConfig config_write_fails ''/stacks'' demo_provider demo_options ''http://geth:8545'' fresh =
     (Return None,
      \<lparr>world = 0,
       trace =
         [Called (MkdirAll ''/stacks/dev/init/blockchain'' 493) None,
          Called (WriteFile ''/stacks/dev/init/blockchain/password'' ''correcthorsebatterystaple'' 493) None,
          Called (SignerConfig_WriteConfig 2021 ''http://geth:8545''
                    ''/stacks/dev/init/config/ethsigner.yaml'')
            (Some (GoError ''permission denied''))],
       console = []\<rparr>)"
  by code_simp

text \<open>
  C2 fails on the code. The command that copies the signer configuration into the
  configuration volume exits with code 1, so \<open>CopyFileToVolume\<close> returns an error
  there; \<open>FirstTimeSetup\<close> drops it, goes on with the three imports and the password
  copy, and returns nil.
\<close>

theorem FirstTimeSetup_config_copy_failure:
  "FirstTimeSetup config_copy_fails demo_provider fresh =
     (Return None,
      \<lparr>world = 3,
       trace =
         [Started \<lparr>Path = ''docker'', Args = [''docker'', ''volume'', ''create'', ''dev_ethsigner''],
                   Dir = ''.''\<rparr> ok_process,
          Called (MkdirAll ''/stacks/dev/runtime/contracts'' 493) None,
          Started \<lparr>Path = ''docker'',
                    Args = [''docker'', ''run'', ''--rm'', ''-v'',
                            ''/stacks/dev/runtime/config/ethsigner.yaml:/source/ethsigner.yaml'',
                            ''-v'', ''dev_ethsigner_config:/dest'', ''alpine'', ''cp'', ''-R'',
                            ''/source/ethsigner.yaml'', ''/dest/firefly.ffsigner''],
                    Dir = ''.''\<rparr> failing_process,
          Called (importAccountToEthsigner ''0xa1'') None,
          Called (importAccountToEthsigner ''0xb2'') None,
          Called (importAccountToEthsigner ''0xc3'') None,
          Started \<lparr>Path = ''docker'',
                    Args = [''docker'', ''run'', ''--rm'', ''-v'',
                            ''/stacks/dev/runtime/blockchain/password:/source/password'',
                            ''-v'', ''dev_ethsigner:/dest'', ''alpine'', ''cp'', ''-R'',
                            ''/source/password'', ''/dest/password''],
                    Dir = ''.''\<rparr> ok_process],
       console = []\<rparr>) \<and>
   fst (CopyFileToVolume config_copy_fails (provider_ctx demo_provider) ''dev_ethsigner_config''
          ''/stacks/dev/runtime/config/ethsigner.yaml'' ''firefly.ffsigner''
          \<lparr>world = 1, trace = [], console = []\<rparr>) =
     Return (Some (GoError (''docker run --rm -v /stacks/dev/runtime/config/ethsigner.yaml:/source/ethsigner.yaml -v dev_ethsigner_config:/dest alpine cp -R /source/ethsigner.yaml /dest/firefly.ffsigner [1] boom\<newline>'')))"
  by code_simp

lemma RunDockerCommand_result:
  assumes "CtxIsLogCmdKey ctx = None"
  shows "\<exists>r s' proc. RunDockerCommand e ctx dir command s = (r, s') \<and>
           trace s' = trace s @ [Started \<lparr>Path = ''docker'', Args = ''docker'' # command, Dir = dir\<rparr> proc] \<and>
           (r = Return None \<longleftrightarrow> exits_cleanly (VerbosityFromContext ctx) proc) \<and>
           (\<forall>pn. r \<noteq> Panic pn)"
proof -
  let ?cmd = "\<lparr>Path = ''docker'', Args = ''docker'' # command, Dir = dir\<rparr>"
  obtain proc w where st: "start e ?cmd (world s) = (proc, w)"
    by (cases "start e ?cmd (world s)")
  let ?c = "fst (outputCapture False (VerbosityFromContext ctx) (arrivals proc) [] s)"
  have c: "?c = fst (outputCapture False (VerbosityFromContext ctx) (arrivals proc) []
                  \<lparr>world = (), trace = [], console = []\<rparr>)"
    by (rule outputCapture_fst)
  have f: "fst (runCommand e ctx ?cmd s) =
     (case ?c of
        Blocked \<Rightarrow> Hang
      | Failed err \<Rightarrow> Return ([], Some err)
      | Broke outputBuff \<Rightarrow>
          if ExitCode proc \<noteq> 0
          then Return ([], Some (GoError (strings_Join (Args ?cmd) '' '' @ '' ['' @
                 show_int (ExitCode proc) @ ''] '' @ outputBuff)))
          else Return (outputBuff, None))"
    using runCommand_fst [OF st, of ctx] by (simp add: assms)
  have t: "trace (snd (runCommand e ctx ?cmd s)) = trace s @ [Started ?cmd proc]"
    by (simp add: runCommand_trace st)
  have r: "RunDockerCommand e ctx dir command s = drop_output (runCommand e ctx ?cmd s)"
    by (simp add: RunDockerCommand_def exec_Command_def)
  have "fst (RunDockerCommand e ctx dir command s) = Return None \<longleftrightarrow>
          exits_cleanly (VerbosityFromContext ctx) proc"
    unfolding r drop_output_fst f exits_cleanly_def c [symmetric]
    by (cases ?c) auto
  moreover have "\<forall>pn. fst (RunDockerCommand e ctx dir command s) \<noteq> Panic pn"
    unfolding r drop_output_fst f by (cases ?c) auto
  moreover have "trace (snd (RunDockerCommand e ctx dir command s)) = trace s @ [Started ?cmd proc]"
    unfolding r drop_output_snd by (rule t)
  ultimately show ?thesis
    by (intro exI [of _ "fst (RunDockerCommand e ctx dir command s)"]
              exI [of _ "snd (RunDockerCommand e ctx dir command s)"] exI [of _ proc]) simp
qed

lemma perform_result:
  "\<exists>r s'. perform e c s = (Return r, s') \<and> trace s' = trace s @ [Called c r]"
  by (cases "sys e c (world s)") (simp add: perform_def)

lemma perform_answer:
  "fst (sys e c (world s)) = r \<Longrightarrow>
   \<exists>s'. perform e c s = (Return r, s') \<and> trace s' = trace s @ [Called c r]"
  by (cases "sys e c (world s)") (simp add: perform_def)

lemma RunDockerCommand_clean:
  assumes "CtxIsLogCmdKey ctx = None"
    and "exits_cleanly (VerbosityFromContext ctx)
           (fst (start e \<lparr>Path = ''docker'', Args = ''docker'' # command, Dir = dir\<rparr> (world s)))"
  shows "\<exists>s'. RunDockerCommand e ctx dir command s = (Return None, s') \<and>
           trace s' = trace s @
             [Started \<lparr>Path = ''docker'', Args = ''docker'' # command, Dir = dir\<rparr>
                (fst (start e \<lparr>Path = ''docker'', Args = ''docker'' # command, Dir = dir\<rparr> (world s)))]"
proof -
  let ?cmd = "\<lparr>Path = ''docker'', Args = ''docker'' # command, Dir = dir\<rparr>"
  obtain proc w where st: "start e ?cmd (world s) = (proc, w)"
    by (cases "start e ?cmd (world s)")
  let ?c = "fst (outputCapture False (VerbosityFromContext ctx) (arrivals proc) [] s)"
  have c: "?c = fst (outputCapture False (VerbosityFromContext ctx) (arrivals proc) []
                  \<lparr>world = (), trace = [], console = []\<rparr>)"
    by (rule outputCapture_fst)
  from assms(2) obtain buf where b: "?c = Broke buf" and x: "ExitCode proc = 0"
    unfolding exits_cleanly_def c [symmetric] st fst_conv
    by (cases ?c) simp_all
  have f: "fst (runCommand e ctx ?cmd s) = Return (buf, None)"
    using runCommand_fst [OF st, of ctx] by (simp add: assms(1) b x)
  have t: "trace (snd (runCommand e ctx ?cmd s)) = trace s @ [Started ?cmd proc]"
    by (simp add: runCommand_trace st)
  have r: "RunDockerCommand e ctx dir command s = drop_output (runCommand e ctx ?cmd s)"
    by (simp add: RunDockerCommand_def exec_Command_def)
  have "fst (RunDockerCommand e ctx dir command s) = Return None"
    unfolding r drop_output_fst f by simp
  moreover have "trace (snd (RunDockerCommand e ctx dir command s)) = trace s @ [Started ?cmd proc]"
    unfolding r drop_output_snd by (rule t)
  ultimately show ?thesis
    by (intro exI [of _ "snd (RunDockerCommand e ctx dir command s)"]) (simp add: st prod_eq_iff)
qed

lemma FirstTimeSetup_members_trace:
  "\<exists>out s'. FirstTimeSetup_members e ms s = (out, s') \<and>
     ((out = Return None \<and> trace s' = trace s @ map import_ok (map member_address ms)) \<or>
      (\<exists>i err. i < length ms \<and> out = Return (Some err) \<and>
         trace s' = trace s @ map import_ok (take i (map member_address ms)) @
           [Called (importAccountToEthsigner (map member_address ms ! i)) (Some err)]) \<or>
      (\<exists>i pn. i < length ms \<and> out = Panic pn \<and>
         trace s' = trace s @ map import_ok (take i (map member_address ms))))"
proof (induction ms arbitrary: s)
  case Nil
  show ?case by simp
next
  case (Cons m ms)
  have stop: ?case if "FirstTimeSetup_members e (m # ms) s = (Panic pn, s)" for pn
  proof -
    have "\<exists>i pn'. i < length (m # ms) \<and> Panic pn = Panic pn' \<and>
            trace s = trace s @ map import_ok (take i (map member_address (m # ms)))"
      by (rule exI [of _ 0], rule exI [of _ pn]) simp
    then show ?thesis using that by simp
  qed
  show ?case
  proof (cases "Account m")
    case OtherAccount
    then have "FirstTimeSetup_members e (m # ms) s = (Panic TypeAssertion, s)"
      by (simp add: assert_ethereum_Account_def)
    then show ?thesis by (rule stop)
  next
    case (EthereumAccount ptr)
    show ?thesis
    proof (cases ptr)
      case None
      then have "FirstTimeSetup_members e (m # ms) s = (Panic NilDereference, s)"
        by (simp add: EthereumAccount assert_ethereum_Account_def)
      then show ?thesis by (rule stop)
    next
      case (Some a)
      have a: "Account m = EthereumAccount (Some a)" by (simp add: EthereumAccount Some)
      have addr: "member_address m = Address a" by (simp add: member_address_def a)
      obtain r s1 where p: "perform e (importAccountToEthsigner (Address a)) s = (Return r, s1)"
        and t1: "trace s1 = trace s @ [Called (importAccountToEthsigner (Address a)) r]"
        using perform_result [of e "importAccountToEthsigner (Address a)" s] by blast
      show ?thesis
      proof (cases r)
        case None
        from Cons.IH [of s1] obtain out s' where
          l: "FirstTimeSetup_members e ms s1 = (out, s')" and
          d: "(out = Return None \<and> trace s' = trace s1 @ map import_ok (map member_address ms)) \<or>
              (\<exists>i err. i < length ms \<and> out = Return (Some err) \<and>
                 trace s' = trace s1 @ map import_ok (take i (map member_address ms)) @
                   [Called (importAccountToEthsigner (map member_address ms ! i)) (Some err)]) \<or>
              (\<exists>i pn. i < length ms \<and> out = Panic pn \<and>
                 trace s' = trace s1 @ map import_ok (take i (map member_address ms)))"
          by blast
        have eq: "FirstTimeSetup_members e (m # ms) s = (out, s')"
          by (simp add: a assert_ethereum_Account_def p None on_success_def l)
        from d consider
          (finished) "out = Return None" "trace s' = trace s1 @ map import_ok (map member_address ms)"
        | (failed) i err where "i < length ms" "out = Return (Some err)"
            "trace s' = trace s1 @ map import_ok (take i (map member_address ms)) @
               [Called (importAccountToEthsigner (map member_address ms ! i)) (Some err)]"
        | (panicked) i pn where "i < length ms" "out = Panic pn"
            "trace s' = trace s1 @ map import_ok (take i (map member_address ms))"
          by blast
        then show ?thesis
        proof cases
          case finished
          then show ?thesis
            using eq t1 None by (simp add: addr import_ok_def)
        next
          case failed
          have "Suc i < length (m # ms) \<and> out = Return (Some err) \<and>
                trace s' = trace s @ map import_ok (take (Suc i) (map member_address (m # ms))) @
                  [Called (importAccountToEthsigner (map member_address (m # ms) ! Suc i)) (Some err)]"
            using failed t1 None by (simp add: addr import_ok_def)
          then show ?thesis using eq by blast
        next
          case panicked
          have "Suc i < length (m # ms) \<and> out = Panic pn \<and>
                trace s' = trace s @ map import_ok (take (Suc i) (map member_address (m # ms)))"
            using panicked t1 None by (simp add: addr import_ok_def)
          then show ?thesis using eq by blast
        qed
      next
        case (Some err)
        have eq: "FirstTimeSetup_members e (m # ms) s = (Return (Some err), s1)"
          by (simp add: a assert_ethereum_Account_def p Some on_success_def)
        have "0 < length (m # ms) \<and> Return (Some err) = Return (Some err) \<and>
              trace s1 = trace s @ map import_ok (take 0 (map member_address (m # ms))) @
                [Called (importAccountToEthsigner (map member_address (m # ms) ! 0)) (Some err)]"
          using t1 Some by (simp add: addr)
        then show ?thesis using eq by blast
      qed
    qed
  qed
qed

lemma new_trace_append: "trace s' = trace s @ T \<Longrightarrow> new_trace s s' = T"
  by (simp add: new_trace_def)

lemma provider_ctx_simps:
  "CtxIsLogCmdKey (provider_ctx p) = None"
  "VerbosityFromContext (provider_ctx p) = Verbose p"
  by (simp_all add: provider_ctx_def)

lemma FirstTimeSetup_pre:
  "(\<exists>p1. new_trace s (snd (FirstTimeSetup e p s)) = [Started (create_volume_cmd p) p1] \<and>
          fst (FirstTimeSetup e p s) \<noteq> Return None \<and>
          (\<forall>pn. fst (FirstTimeSetup e p s) \<noteq> Panic pn) \<and> \<not> exits_cleanly (Verbose p) p1) \<or>
   (\<exists>p1 err. new_trace s (snd (FirstTimeSetup e p s)) =
          [Started (create_volume_cmd p) p1, Called (contracts_mkdir p) (Some err)] \<and>
          fst (FirstTimeSetup e p s) = Return (Some err)) \<or>
   (\<exists>p1 p2. new_trace s (snd (FirstTimeSetup e p s)) =
          [Started (create_volume_cmd p) p1, Called (contracts_mkdir p) None,
           Started (config_copy_cmd p) p2] \<and>
          fst (FirstTimeSetup e p s) = Hang \<and> \<not> exits_cleanly (Verbose p) p2) \<or>
   (\<exists>p1 p2 s3. trace s3 = trace s @ [Started (create_volume_cmd p) p1, Called (contracts_mkdir p) None,
                                      Started (config_copy_cmd p) p2] \<and>
          FirstTimeSetup e p s =
            on_success (FirstTimeSetup_members e (Members (Stack p)) s3)
              (\<lambda>s4. CopyFileToVolume e (provider_ctx p) (Name (Stack p) @ ''_ethsigner'')
                       (path_Join [filepath_Join [RuntimeDir (Stack p), ''blockchain''], ''password''])
                       ''password'' s4))"
proof -
  let ?ctx = "provider_ctx p"
  note il = provider_ctx_simps(1) [of p]
  obtain r1 s1 p1 where c1: "CreateVolume e ?ctx (Name (Stack p) @ ''_ethsigner'') s = (r1, s1)"
    and t1: "trace s1 = trace s @ [Started (create_volume_cmd p) p1]"
    and ok1: "r1 = Return None \<longleftrightarrow> exits_cleanly (Verbose p) p1"
    and np1: "\<forall>pn. r1 \<noteq> Panic pn"
    using RunDockerCommand_result [OF il, of e "''.''" "CreateVolume_args (Name (Stack p) @ ''_ethsigner'')" s]
    by (auto simp: CreateVolume_def create_volume_cmd_def provider_ctx_simps)
  show ?thesis
  proof (cases "r1 = Return None")
    case False
    then have R: "FirstTimeSetup e p s = (r1, s1)"
      by (cases r1) (auto simp: FirstTimeSetup_def Let_def c1 on_success_def split: option.splits)
    have "new_trace s (snd (FirstTimeSetup e p s)) = [Started (create_volume_cmd p) p1]"
      by (simp add: R new_trace_append [OF t1])
    with False ok1 np1 R show ?thesis by auto
  next
    case True
    obtain r2 s2 where c2: "perform e (contracts_mkdir p) s1 = (Return r2, s2)"
      and t2: "trace s2 = trace s1 @ [Called (contracts_mkdir p) r2]"
      using perform_result [of e "contracts_mkdir p" s1] by blast
    show ?thesis
    proof (cases r2)
      case (Some err)
      have R: "FirstTimeSetup e p s = (Return (Some err), s2)"
        using c2 by (simp add: FirstTimeSetup_def Let_def c1 True on_success_def Some contracts_mkdir_def)
      have "new_trace s (snd (FirstTimeSetup e p s)) =
              [Started (create_volume_cmd p) p1, Called (contracts_mkdir p) (Some err)]"
        by (simp add: R new_trace_def t2 t1 Some)
      with R show ?thesis by auto
    next
      case None
      obtain r3 s3 p2 where c3: "CopyFileToVolume e ?ctx (Name (Stack p) @ ''_ethsigner_config'')
            (filepath_Join [StackDir (Stack p), ''runtime'', ''config'', ''ethsigner.yaml''])
            ''firefly.ffsigner'' s2 = (r3, s3)"
        and t3: "trace s3 = trace s2 @ [Started (config_copy_cmd p) p2]"
        and ok3: "r3 = Return None \<longleftrightarrow> exits_cleanly (Verbose p) p2"
        and np3: "\<forall>pn. r3 \<noteq> Panic pn"
        using RunDockerCommand_result [OF il, of e "''.''"
                "CopyFileToVolume_args (Name (Stack p) @ ''_ethsigner_config'')
                   (filepath_Join [StackDir (Stack p), ''runtime'', ''config'', ''ethsigner.yaml''])
                   ''firefly.ffsigner''" s2]
        by (auto simp: CopyFileToVolume_def config_copy_cmd_def provider_ctx_simps)
      have t3': "trace s3 = trace s @ [Started (create_volume_cmd p) p1, Called (contracts_mkdir p) None,
                                      Started (config_copy_cmd p) p2]"
        by (simp add: t3 t2 t1 None)
      show ?thesis
      proof (cases r3)
        case Hang
        have R: "FirstTimeSetup e p s = (Hang, s3)"
          using c2 by (simp add: FirstTimeSetup_def Let_def c1 True on_success_def None c3 Hang
                contracts_mkdir_def)
        have "new_trace s (snd (FirstTimeSetup e p s)) =
              [Started (create_volume_cmd p) p1, Called (contracts_mkdir p) None,
               Started (config_copy_cmd p) p2]"
          by (simp add: R new_trace_append [OF t3'])
        with R ok3 Hang show ?thesis by auto
      next
        case (Panic pn)
        with np3 show ?thesis by simp
      next
        case (Return ignored)
        have R: "FirstTimeSetup e p s =
            on_success (FirstTimeSetup_members e (Members (Stack p)) s3)
              (\<lambda>s4. CopyFileToVolume e (provider_ctx p) (Name (Stack p) @ ''_ethsigner'')
                       (path_Join [filepath_Join [RuntimeDir (Stack p), ''blockchain''], ''password''])
                       ''password'' s4)"
          using c2 by (simp add: FirstTimeSetup_def Let_def c1 True on_success_def None c3 Return
                contracts_mkdir_def split: prod.splits outcome.splits option.splits)
        with t3' show ?thesis by blast
      qed
    qed
  qed
qed

lemma password_copy_cmd_neq:
  "password_copy_cmd p \<noteq> create_volume_cmd p" "password_copy_cmd p \<noteq> config_copy_cmd p"
  by (simp_all add: password_copy_cmd_def create_volume_cmd_def config_copy_cmd_def
        CreateVolume_args_def CopyFileToVolume_args_def Let_def)

lemma FirstTimeSetup_shapes:
  "(\<exists>p1. new_trace s (snd (FirstTimeSetup e p s)) = [Started (create_volume_cmd p) p1] \<and>
          fst (FirstTimeSetup e p s) \<noteq> Return None) \<or>
   (\<exists>p1 err. new_trace s (snd (FirstTimeSetup e p s)) =
          [Started (create_volume_cmd p) p1, Called (contracts_mkdir p) (Some err)] \<and>
          fst (FirstTimeSetup e p s) = Return (Some err)) \<or>
   (\<exists>p1 p2. new_trace s (snd (FirstTimeSetup e p s)) =
          [Started (create_volume_cmd p) p1, Called (contracts_mkdir p) None,
           Started (config_copy_cmd p) p2] \<and>
          fst (FirstTimeSetup e p s) = Hang) \<or>
   (\<exists>p1 p2 i err. i < length (Members (Stack p)) \<and>
          new_trace s (snd (FirstTimeSetup e p s)) =
            [Started (create_volume_cmd p) p1, Called (contracts_mkdir p) None,
             Started (config_copy_cmd p) p2] @
            map import_ok (take i (map member_address (Members (Stack p)))) @
            [Called (importAccountToEthsigner (map member_address (Members (Stack p)) ! i)) (Some err)] \<and>
          fst (FirstTimeSetup e p s) = Return (Some err)) \<or>
   (\<exists>p1 p2 i pn. i < length (Members (Stack p)) \<and>
          new_trace s (snd (FirstTimeSetup e p s)) =
            [Started (create_volume_cmd p) p1, Called (contracts_mkdir p) None,
             Started (config_copy_cmd p) p2] @
            map import_ok (take i (map member_address (Members (Stack p)))) \<and>
          fst (FirstTimeSetup e p s) = Panic pn) \<or>
   (\<exists>p1 p2 p3. new_trace s (snd (FirstTimeSetup e p s)) =
            [Started (create_volume_cmd p) p1, Called (contracts_mkdir p) None,
             Started (config_copy_cmd p) p2] @
            map import_ok (map member_address (Members (Stack p))) @
            [Started (password_copy_cmd p) p3] \<and>
          (fst (FirstTimeSetup e p s) = Return None \<longleftrightarrow> exits_cleanly (Verbose p) p3))"
proof -
  let ?R = "FirstTimeSetup e p s"
  let ?A = "map member_address (Members (Stack p))"
  let ?pw = "\<lambda>s4. CopyFileToVolume e (provider_ctx p) (Name (Stack p) @ ''_ethsigner'')
                       (path_Join [filepath_Join [RuntimeDir (Stack p), ''blockchain''], ''password''])
                       ''password'' s4"
  from FirstTimeSetup_pre [of s e p]
  consider
    (vol) p1 where "new_trace s (snd ?R) = [Started (create_volume_cmd p) p1]" "fst ?R \<noteq> Return None"
  | (mk) p1 err where "new_trace s (snd ?R) =
          [Started (create_volume_cmd p) p1, Called (contracts_mkdir p) (Some err)]"
          "fst ?R = Return (Some err)"
  | (cfg) p1 p2 where "new_trace s (snd ?R) =
          [Started (create_volume_cmd p) p1, Called (contracts_mkdir p) None,
           Started (config_copy_cmd p) p2]" "fst ?R = Hang"
  | (loop) p1 p2 s3 where "trace s3 = trace s @ [Started (create_volume_cmd p) p1,
           Called (contracts_mkdir p) None, Started (config_copy_cmd p) p2]"
          "?R = on_success (FirstTimeSetup_members e (Members (Stack p)) s3) ?pw"
    by blast
  then show ?thesis
  proof cases
    case vol
    then show ?thesis by blast
  next
    case mk
    then show ?thesis by blast
  next
    case cfg
    then show ?thesis by blast
  next
    case loop
    from FirstTimeSetup_members_trace [of e "Members (Stack p)" s3]
    obtain out s4 where l: "FirstTimeSetup_members e (Members (Stack p)) s3 = (out, s4)"
      and d: "(out = Return None \<and> trace s4 = trace s3 @ map import_ok ?A) \<or>
            (\<exists>i err. i < length (Members (Stack p)) \<and> out = Return (Some err) \<and>
               trace s4 = trace s3 @ map import_ok (take i ?A) @
                 [Called (importAccountToEthsigner (?A ! i)) (Some err)]) \<or>
            (\<exists>i pn. i < length (Members (Stack p)) \<and> out = Panic pn \<and>
               trace s4 = trace s3 @ map import_ok (take i ?A))"
      by blast
    from d consider
      (finished) "out = Return None" "trace s4 = trace s3 @ map import_ok ?A"
    | (failed) i err where "i < length (Members (Stack p))" "out = Return (Some err)"
        "trace s4 = trace s3 @ map import_ok (take i ?A) @
           [Called (importAccountToEthsigner (?A ! i)) (Some err)]"
    | (panicked) i pn where "i < length (Members (Stack p))" "out = Panic pn"
        "trace s4 = trace s3 @ map import_ok (take i ?A)"
      by blast
    then show ?thesis
    proof cases
      case finished
      obtain r5 s5 p3 where c5: "?pw s4 = (r5, s5)"
        and t5: "trace s5 = trace s4 @ [Started (password_copy_cmd p) p3]"
        and ok5: "r5 = Return None \<longleftrightarrow> exits_cleanly (Verbose p) p3"
        using RunDockerCommand_result [OF provider_ctx_simps(1), of e p "''.''"
                "CopyFileToVolume_args (Name (Stack p) @ ''_ethsigner'')
                   (path_Join [filepath_Join [RuntimeDir (Stack p), ''blockchain''], ''password''])
                   ''password''" s4]
        by (auto simp: CopyFileToVolume_def password_copy_cmd_def provider_ctx_simps)
      have R: "?R = (r5, s5)"
        using finished by (simp add: loop(2) l on_success_def c5)
      have "new_trace s (snd ?R) =
            [Started (create_volume_cmd p) p1, Called (contracts_mkdir p) None,
             Started (config_copy_cmd p) p2] @ map import_ok ?A @ [Started (password_copy_cmd p) p3]"
        using finished by (simp add: R new_trace_def t5 loop(1))
      with ok5 R show ?thesis by auto
    next
      case failed
      have R: "?R = (Return (Some err), s4)"
        by (simp add: loop(2) l on_success_def failed(2))
      have "new_trace s (snd ?R) =
            [Started (create_volume_cmd p) p1, Called (contracts_mkdir p) None,
             Started (config_copy_cmd p) p2] @ map import_ok (take i ?A) @
            [Called (importAccountToEthsigner (?A ! i)) (Some err)]"
        by (simp add: R new_trace_def failed(3) loop(1))
      with failed(1) R show ?thesis by auto
    next
      case panicked
      have R: "?R = (Panic pn, s4)"
        by (simp add: loop(2) l on_success_def panicked(2))
      have "new_trace s (snd ?R) =
            [Started (create_volume_cmd p) p1, Called (contracts_mkdir p) None,
             Started (config_copy_cmd p) p2] @ map import_ok (take i ?A)"
        by (simp add: R new_trace_def panicked(3) loop(1))
      with panicked(1) R show ?thesis by auto
    qed
  qed
qed

lemma FirstTimeSetup_log_order:
  "(\<forall>proc. Started (password_copy_cmd p) proc \<in> set (new_trace s (snd (FirstTimeSetup e p s))) \<longrightarrow>
      (\<exists>p1 p2. new_trace s (snd (FirstTimeSetup e p s)) =
         [Started (create_volume_cmd p) p1, Called (contracts_mkdir p) None,
          Started (config_copy_cmd p) p2] @
         map import_ok (map member_address (Members (Stack p))) @
         [Started (password_copy_cmd p) proc])) \<and>
   (\<forall>a err. Called (importAccountToEthsigner a) (Some err)
               \<in> set (new_trace s (snd (FirstTimeSetup e p s))) \<longrightarrow>
      (\<exists>p1 p2 i. i < length (Members (Stack p)) \<and> a = member_address (Members (Stack p) ! i) \<and>
         new_trace s (snd (FirstTimeSetup e p s)) =
           [Started (create_volume_cmd p) p1, Called (contracts_mkdir p) None,
            Started (config_copy_cmd p) p2] @
           map import_ok (take i (map member_address (Members (Stack p)))) @
           [Called (importAccountToEthsigner a) (Some err)] \<and>
         fst (FirstTimeSetup e p s) = Return (Some err))) \<and>
   (fst (FirstTimeSetup e p s) = Return None \<longrightarrow>
      (\<exists>proc. Started (password_copy_cmd p) proc \<in> set (new_trace s (snd (FirstTimeSetup e p s)))))"
proof -
  let ?R = "FirstTimeSetup e p s"
  let ?T = "new_trace s (snd ?R)"
  let ?A = "map member_address (Members (Stack p))"
  let ?pre = "\<lambda>p1 p2. [Started (create_volume_cmd p) p1, Called (contracts_mkdir p) None,
                        Started (config_copy_cmd p) p2]"
  let ?G1 = "\<forall>proc. Started (password_copy_cmd p) proc \<in> set ?T \<longrightarrow>
      (\<exists>p1 p2. ?T = ?pre p1 p2 @ map import_ok ?A @ [Started (password_copy_cmd p) proc])"
  let ?G2 = "\<forall>a err. Called (importAccountToEthsigner a) (Some err) \<in> set ?T \<longrightarrow>
      (\<exists>p1 p2 i. i < length (Members (Stack p)) \<and> a = member_address (Members (Stack p) ! i) \<and>
         ?T = ?pre p1 p2 @ map import_ok (take i ?A) @ [Called (importAccountToEthsigner a) (Some err)] \<and>
         fst ?R = Return (Some err))"
  let ?G3 = "fst ?R = Return None \<longrightarrow> (\<exists>proc. Started (password_copy_cmd p) proc \<in> set ?T)"
  from FirstTimeSetup_shapes [of s e p]
  consider
    (vol) p1 where "?T = [Started (create_volume_cmd p) p1]" "fst ?R \<noteq> Return None"
  | (mk) p1 err where "?T = [Started (create_volume_cmd p) p1, Called (contracts_mkdir p) (Some err)]"
          "fst ?R = Return (Some err)"
  | (cfg) p1 p2 where "?T = ?pre p1 p2" "fst ?R = Hang"
  | (imp) p1 p2 i err where "i < length (Members (Stack p))"
          "?T = ?pre p1 p2 @ map import_ok (take i ?A) @
                  [Called (importAccountToEthsigner (?A ! i)) (Some err)]"
          "fst ?R = Return (Some err)"
  | (pan) p1 p2 i pn where "i < length (Members (Stack p))"
          "?T = ?pre p1 p2 @ map import_ok (take i ?A)" "fst ?R = Panic pn"
  | (pw) p1 p2 p3 where "?T = ?pre p1 p2 @ map import_ok ?A @ [Started (password_copy_cmd p) p3]"
          "fst ?R = Return None \<longleftrightarrow> exits_cleanly (Verbose p) p3"
    by blast
  then have "?G1 \<and> ?G2 \<and> ?G3"
  proof cases
    case vol
    then show ?thesis
      using password_copy_cmd_neq [of p] by auto
  next
    case mk
    then show ?thesis
      using password_copy_cmd_neq [of p] by (auto simp: contracts_mkdir_def)
  next
    case cfg
    then show ?thesis
      using password_copy_cmd_neq [of p] by (auto simp: contracts_mkdir_def)
  next
    case imp
    have a: "Started (password_copy_cmd p) proc \<notin> set ?T" for proc
      using password_copy_cmd_neq [of p] by (auto simp: imp(2) import_ok_def)
    have b: "\<exists>p1 p2 i. i < length (Members (Stack p)) \<and> a = member_address (Members (Stack p) ! i) \<and>
         ?T = ?pre p1 p2 @ map import_ok (take i ?A) @ [Called (importAccountToEthsigner a) (Some err')] \<and>
         fst ?R = Return (Some err')"
      if "Called (importAccountToEthsigner a) (Some err') \<in> set ?T" for a err'
    proof -
      from that have "a = ?A ! i \<and> err' = err"
        by (auto simp: imp(2) import_ok_def contracts_mkdir_def)
      with imp show ?thesis by auto
    qed
    have A: ?G1 using a by blast
    have B: ?G2 using b by blast
    have C: ?G3 using imp(3) by simp
    show ?thesis by (rule conjI [OF A conjI [OF B C]])
  next
    case pan
    have a: "Started (password_copy_cmd p) proc \<notin> set ?T" for proc
      using password_copy_cmd_neq [of p] by (auto simp: pan(2) import_ok_def)
    have b: "Called (importAccountToEthsigner a) (Some err) \<notin> set ?T" for a err
      by (auto simp: pan(2) import_ok_def contracts_mkdir_def)
    have A: ?G1 using a by blast
    have B: ?G2 using b by blast
    have C: ?G3 using pan(3) by simp
    show ?thesis by (rule conjI [OF A conjI [OF B C]])
  next
    case pw
    have a: "\<exists>p1 p2. ?T = ?pre p1 p2 @ map import_ok ?A @ [Started (password_copy_cmd p) proc]"
      if "Started (password_copy_cmd p) proc \<in> set ?T" for proc
    proof -
      from that have "proc = p3"
        using password_copy_cmd_neq [of p] by (auto simp: pw(1) import_ok_def)
      with pw(1) show ?thesis by blast
    qed
    have b: "Called (importAccountToEthsigner a) (Some err) \<notin> set ?T" for a err
      by (auto simp: pw(1) import_ok_def contracts_mkdir_def)
    have c: "\<exists>proc. Started (password_copy_cmd p) proc \<in> set ?T"
      by (auto simp: pw(1))
    have A: ?G1 using a by blast
    have B: ?G2 using b by blast
    have C: ?G3 using c by simp
    show ?thesis by (rule conjI [OF A conjI [OF B C]])
  qed
  then show ?thesis .
qed

lemma FirstTimeSetup_members_all_ok:
  assumes "\<forall>m \<in> set ms. \<exists>a. Account m = EthereumAccount (Some a)"
    and "\<forall>m \<in> set ms. \<forall>w. fst (sys e (importAccountToEthsigner (member_address m)) w) = None"
  shows "\<exists>s'. FirstTimeSetup_members e ms s = (Return None, s') \<and>
           trace s' = trace s @ map import_ok (map member_address ms)"
  using assms
proof (induction ms arbitrary: s)
  case Nil
  show ?case by simp
next
  case (Cons m ms)
  then obtain a where a: "Account m = EthereumAccount (Some a)" by auto
  have addr: "member_address m = Address a" by (simp add: member_address_def a)
  from Cons.prems(2) have "fst (sys e (importAccountToEthsigner (Address a)) (world s)) = None"
    by (simp add: addr)
  from perform_answer [OF this] obtain s1 where
    p: "perform e (importAccountToEthsigner (Address a)) s = (Return None, s1)"
    and t1: "trace s1 = trace s @ [Called (importAccountToEthsigner (Address a)) None]"
    by blast
  from Cons.prems have "\<forall>m \<in> set ms. \<exists>a. Account m = EthereumAccount (Some a)"
    and "\<forall>m \<in> set ms. \<forall>w. fst (sys e (importAccountToEthsigner (member_address m)) w) = None"
    by simp_all
  from Cons.IH [OF this, of s1] obtain s' where
    l: "FirstTimeSetup_members e ms s1 = (Return None, s')"
    and t: "trace s' = trace s1 @ map import_ok (map member_address ms)"
    by blast
  have "FirstTimeSetup_members e (m # ms) s = (Return None, s')"
    by (simp add: a assert_ethereum_Account_def p on_success_def l)
  moreover have "trace s' = trace s @ map import_ok (map member_address (m # ms))"
    by (simp add: t t1 addr import_ok_def)
  ultimately show ?case by blast
qed

lemma FirstTimeSetup_members_fails_at:
  assumes "i < length ms"
    and "\<forall>j\<le>i. \<exists>a. Account (ms ! j) = EthereumAccount (Some a)"
    and "\<forall>j<i. \<forall>w. fst (sys e (importAccountToEthsigner (member_address (ms ! j))) w) = None"
    and "\<forall>w. fst (sys e (importAccountToEthsigner (member_address (ms ! i))) w) \<noteq> None"
  shows "\<exists>err s'. FirstTimeSetup_members e ms s = (Return (Some err), s') \<and>
           trace s' = trace s @ map import_ok (take i (map member_address ms)) @
             [Called (importAccountToEthsigner (member_address (ms ! i))) (Some err)]"
  using assms
proof (induction ms arbitrary: i s)
  case Nil
  then show ?case by simp
next
  case (Cons m ms)
  from Cons.prems(2) have "\<exists>a. Account ((m # ms) ! 0) = EthereumAccount (Some a)" by blast
  then obtain a where a: "Account m = EthereumAccount (Some a)" by auto
  have addr: "member_address m = Address a" by (simp add: member_address_def a)
  show ?case
  proof (cases i)
    case 0
    with Cons.prems(4) obtain err where
      "fst (sys e (importAccountToEthsigner (Address a)) (world s)) = Some err"
      by (auto simp: addr)
    from perform_answer [OF this] obtain s1 where
      p: "perform e (importAccountToEthsigner (Address a)) s = (Return (Some err), s1)"
      and t1: "trace s1 = trace s @ [Called (importAccountToEthsigner (Address a)) (Some err)]"
      by blast
    have "FirstTimeSetup_members e (m # ms) s = (Return (Some err), s1)"
      by (simp add: a assert_ethereum_Account_def p on_success_def)
    moreover have "trace s1 = trace s @ map import_ok (take i (map member_address (m # ms))) @
             [Called (importAccountToEthsigner (member_address ((m # ms) ! i))) (Some err)]"
      by (simp add: 0 t1 addr)
    ultimately show ?thesis by blast
  next
    case (Suc i')
    from Cons.prems(3) Suc have
      "\<forall>w. fst (sys e (importAccountToEthsigner (member_address ((m # ms) ! 0))) w) = None"
      by blast
    then have "fst (sys e (importAccountToEthsigner (Address a)) (world s)) = None"
      by (simp add: addr)
    from perform_answer [OF this] obtain s1 where
      p: "perform e (importAccountToEthsigner (Address a)) s = (Return None, s1)"
      and t1: "trace s1 = trace s @ [Called (importAccountToEthsigner (Address a)) None]"
      by blast
    have h1: "i' < length ms" using Cons.prems(1) Suc by simp
    have h2: "\<forall>j\<le>i'. \<exists>a. Account (ms ! j) = EthereumAccount (Some a)"
    proof (intro allI impI)
      fix j assume "j \<le> i'"
      then have "Suc j \<le> i" by (simp add: Suc)
      with Cons.prems(2) have "\<exists>a. Account ((m # ms) ! Suc j) = EthereumAccount (Some a)" by blast
      then show "\<exists>a. Account (ms ! j) = EthereumAccount (Some a)" by simp
    qed
    have h3: "\<forall>j<i'. \<forall>w. fst (sys e (importAccountToEthsigner (member_address (ms ! j))) w) = None"
    proof (intro allI impI)
      fix j w assume "j < i'"
      then have "Suc j < i" by (simp add: Suc)
      with Cons.prems(3) have
        "\<forall>w. fst (sys e (importAccountToEthsigner (member_address ((m # ms) ! Suc j))) w) = None"
        by blast
      then show "fst (sys e (importAccountToEthsigner (member_address (ms ! j))) w) = None" by simp
    qed
    have h4: "\<forall>w. fst (sys e (importAccountToEthsigner (member_address (ms ! i'))) w) \<noteq> None"
      using Cons.prems(4) by (simp add: Suc)
    from Cons.IH [OF h1 h2 h3 h4, of s1] obtain err s' where
      l: "FirstTimeSetup_members e ms s1 = (Return (Some err), s')"
      and t: "trace s' = trace s1 @ map import_ok (take i' (map member_address ms)) @
             [Called (importAccountToEthsigner (member_address (ms ! i'))) (Some err)]"
      by blast
    have "FirstTimeSetup_members e (m # ms) s = (Return (Some err), s')"
      by (simp add: a assert_ethereum_Account_def p on_success_def l)
    moreover have "trace s' = trace s @ map import_ok (take i (map member_address (m # ms))) @
             [Called (importAccountToEthsigner (member_address ((m # ms) ! i))) (Some err)]"
      by (simp add: Suc t t1 addr import_ok_def)
    ultimately show ?thesis by blast
  qed
qed

lemma FirstTimeSetup_steps_ok:
  assumes "\<forall>w. fst (sys e (contracts_mkdir p) w) = None"
    and "\<forall>cmd w. exits_cleanly (Verbose p) (fst (start e cmd w))"
  shows "\<exists>p1 p2 s3.
           trace s3 = trace s @ [Started (create_volume_cmd p) p1, Called (contracts_mkdir p) None,
                                 Started (config_copy_cmd p) p2] \<and>
           FirstTimeSetup e p s =
             on_success (FirstTimeSetup_members e (Members (Stack p)) s3)
               (\<lambda>s4. CopyFileToVolume e (provider_ctx p) (Name (Stack p) @ ''_ethsigner'')
                        (path_Join [filepath_Join [RuntimeDir (Stack p), ''blockchain''], ''password''])
                        ''password'' s4)"
proof -
  let ?ctx = "provider_ctx p"
  note il = provider_ctx_simps(1) [of p]
  have clean: "exits_cleanly (VerbosityFromContext ?ctx) (fst (start e cmd w))" for cmd w
    using assms(2) by (simp add: provider_ctx_simps)
  obtain s1 where c1: "CreateVolume e ?ctx (Name (Stack p) @ ''_ethsigner'') s = (Return None, s1)"
    and t1: "trace s1 = trace s @ [Started (create_volume_cmd p)
                (fst (start e (create_volume_cmd p) (world s)))]"
    using RunDockerCommand_clean [where ctx = "provider_ctx p" and e = e and s = s and dir = "''.''"
            and command = "CreateVolume_args (Name (Stack p) @ ''_ethsigner'')", OF il clean]
    by (auto simp: CreateVolume_def create_volume_cmd_def)
  from assms(1) have "fst (sys e (contracts_mkdir p) (world s1)) = None" by blast
  from perform_answer [OF this] obtain s2 where
    c2: "perform e (contracts_mkdir p) s1 = (Return None, s2)"
    and t2: "trace s2 = trace s1 @ [Called (contracts_mkdir p) None]"
    by blast
  obtain s3 where c3: "CopyFileToVolume e ?ctx (Name (Stack p) @ ''_ethsigner_config'')
            (filepath_Join [StackDir (Stack p), ''runtime'', ''config'', ''ethsigner.yaml''])
            ''firefly.ffsigner'' s2 = (Return None, s3)"
    and t3: "trace s3 = trace s2 @ [Started (config_copy_cmd p)
                (fst (start e (config_copy_cmd p) (world s2)))]"
    using RunDockerCommand_clean [where ctx = "provider_ctx p" and e = e and s = s2 and dir = "''.''"
            and command = "CopyFileToVolume_args (Name (Stack p) @ ''_ethsigner_config'')
               (filepath_Join [StackDir (Stack p), ''runtime'', ''config'', ''ethsigner.yaml''])
               ''firefly.ffsigner''", OF il clean]
    by (auto simp: CopyFileToVolume_def config_copy_cmd_def)
  have R: "FirstTimeSetup e p s =
            on_success (FirstTimeSetup_members e (Members (Stack p)) s3)
              (\<lambda>s4. CopyFileToVolume e (provider_ctx p) (Name (Stack p) @ ''_ethsigner'')
                       (path_Join [filepath_Join [RuntimeDir (Stack p), ''blockchain''], ''password''])
                       ''password'' s4)"
    using c2 by (simp add: FirstTimeSetup_def Let_def c1 on_success_def c3 contracts_mkdir_def
          split: prod.splits outcome.splits option.splits)
  have "trace s3 = trace s @ [Started (create_volume_cmd p) (fst (start e (create_volume_cmd p) (world s))),
          Called (contracts_mkdir p) None,
          Started (config_copy_cmd p) (fst (start e (config_copy_cmd p) (world s2)))]"
    by (simp add: t3 t2 t1)
  with R show ?thesis by blast
qed

lemma FirstTimeSetup_all_succeed:
  assumes "\<forall>m \<in> set (Members (Stack p)). \<exists>a. Account m = EthereumAccount (Some a)"
    and "\<forall>w. fst (sys e (contracts_mkdir p) w) = None"
    and "\<forall>m \<in> set (Members (Stack p)). \<forall>w.
           fst (sys e (importAccountToEthsigner (member_address m)) w) = None"
    and "\<forall>cmd w. exits_cleanly (Verbose p) (fst (start e cmd w))"
  shows "fst (FirstTimeSetup e p s) = Return None \<and>
         (\<exists>p1 p2 p3. new_trace s (snd (FirstTimeSetup e p s)) =
            [Started (create_volume_cmd p) p1, Called (contracts_mkdir p) None,
             Started (config_copy_cmd p) p2] @
            map import_ok (map member_address (Members (Stack p))) @
            [Started (password_copy_cmd p) p3])"
proof -
  let ?pw = "\<lambda>s4. CopyFileToVolume e (provider_ctx p) (Name (Stack p) @ ''_ethsigner'')
                       (path_Join [filepath_Join [RuntimeDir (Stack p), ''blockchain''], ''password''])
                       ''password'' s4"
  from FirstTimeSetup_steps_ok [OF assms(2,4), of s] obtain p1 p2 s3 where
    t3: "trace s3 = trace s @ [Started (create_volume_cmd p) p1, Called (contracts_mkdir p) None,
                                 Started (config_copy_cmd p) p2]"
    and R: "FirstTimeSetup e p s = on_success (FirstTimeSetup_members e (Members (Stack p)) s3) ?pw"
    by blast
  from FirstTimeSetup_members_all_ok [OF assms(1,3), of s3] obtain s4 where
    l: "FirstTimeSetup_members e (Members (Stack p)) s3 = (Return None, s4)"
    and t4: "trace s4 = trace s3 @ map import_ok (map member_address (Members (Stack p)))"
    by blast
  have clean: "exits_cleanly (VerbosityFromContext (provider_ctx p)) (fst (start e cmd w))" for cmd w
    using assms(4) by (simp add: provider_ctx_simps)
  obtain s5 where c5: "?pw s4 = (Return None, s5)"
    and t5: "trace s5 = trace s4 @ [Started (password_copy_cmd p)
                (fst (start e (password_copy_cmd p) (world s4)))]"
    using RunDockerCommand_clean [where ctx = "provider_ctx p" and e = e and s = s4 and dir = "''.''"
            and command = "CopyFileToVolume_args (Name (Stack p) @ ''_ethsigner'')
               (path_Join [filepath_Join [RuntimeDir (Stack p), ''blockchain''], ''password''])
               ''password''", OF provider_ctx_simps(1) clean]
    by (auto simp: CopyFileToVolume_def password_copy_cmd_def)
  have R': "FirstTimeSetup e p s = (Return None, s5)"
    by (simp add: R l on_success_def c5)
  have "new_trace s (snd (FirstTimeSetup e p s)) =
            [Started (create_volume_cmd p) p1, Called (contracts_mkdir p) None,
             Started (config_copy_cmd p) p2] @
            map import_ok (map member_address (Members (Stack p))) @
            [Started (password_copy_cmd p) (fst (start e (password_copy_cmd p) (world s4)))]"
    by (simp add: R' new_trace_def t5 t4 t3)
  with R' show ?thesis by auto
qed

lemma FirstTimeSetup_import_fails:
  assumes "i < length (Members (Stack p))"
    and "\<forall>j\<le>i. \<exists>a. Account (Members (Stack p) ! j) = EthereumAccount (Some a)"
    and "\<forall>w. fst (sys e (contracts_mkdir p) w) = None"
    and "\<forall>j<i. \<forall>w. fst (sys e (importAccountToEthsigner
                                  (member_address (Members (Stack p) ! j))) w) = None"
    and "\<forall>w. fst (sys e (importAccountToEthsigner (member_address (Members (Stack p) ! i))) w) \<noteq> None"
    and "\<forall>cmd w. exits_cleanly (Verbose p) (fst (start e cmd w))"
  shows "\<exists>err p1 p2. fst (FirstTimeSetup e p s) = Return (Some err) \<and>
           new_trace s (snd (FirstTimeSetup e p s)) =
             [Started (create_volume_cmd p) p1, Called (contracts_mkdir p) None,
              Started (config_copy_cmd p) p2] @
             map import_ok (take i (map member_address (Members (Stack p)))) @
             [Called (importAccountToEthsigner (member_address (Members (Stack p) ! i))) (Some err)]"
proof -
  let ?pw = "\<lambda>s4. CopyFileToVolume e (provider_ctx p) (Name (Stack p) @ ''_ethsigner'')
                       (path_Join [filepath_Join [RuntimeDir (Stack p), ''blockchain''], ''password''])
                       ''password'' s4"
  from FirstTimeSetup_steps_ok [OF assms(3,6), of s] obtain p1 p2 s3 where
    t3: "trace s3 = trace s @ [Started (create_volume_cmd p) p1, Called (contracts_mkdir p) None,
                                 Started (config_copy_cmd p) p2]"
    and R: "FirstTimeSetup e p s = on_success (FirstTimeSetup_members e (Members (Stack p)) s3) ?pw"
    by blast
  from FirstTimeSetup_members_fails_at [OF assms(1,2,4,5), of s3] obtain err s4 where
    l: "FirstTimeSetup_members e (Members (Stack p)) s3 = (Return (Some err), s4)"
    and t4: "trace s4 = trace s3 @ map import_ok (take i (map member_address (Members (Stack p)))) @
             [Called (importAccountToEthsigner (member_address (Members (Stack p) ! i))) (Some err)]"
    by blast
  have R': "FirstTimeSetup e p s = (Return (Some err), s4)"
    by (simp add: R l on_success_def)
  have "new_trace s (snd (FirstTimeSetup e p s)) =
             [Started (create_volume_cmd p) p1, Called (contracts_mkdir p) None,
              Started (config_copy_cmd p) p2] @
             map import_ok (take i (map member_address (Members (Stack p)))) @
             [Called (importAccountToEthsigner (member_address (Members (Stack p) ! i))) (Some err)]"
    by (simp add: R' new_trace_def t4 t3)
  with R' show ?thesis by auto
qed

text \<open>
  C3. Let the steps before the imports succeed: the environment answers the request for
  the contracts directory with nil and every command it starts exits cleanly.
  (1) If every member holds an Ethereum account and every import is answered nil, then
  \<open>FirstTimeSetup\<close> returns nil and what it adds to the log is the volume creation,
  the contracts directory, the configuration copy, one successful import per member in
  the stack's member order (exactly \<open>n\<close> imports), and the password copy last.
  (2) If the import of member \<open>i\<close> is answered with an error, the members up to \<open>i\<close>
  hold Ethereum accounts and the imports of the members before \<open>i\<close> are answered nil,
  then the log ends with the failed import of member \<open>i\<close>, after the imports of the
  members before \<open>i\<close> only (no later import, no password copy), and that error is
  returned.
  And in any environment whatever: (3) if the password copy was started, the log is as
  in (1); (4) if an import failed, it is the import of some member \<open>i\<close>, the log is as in
  (2) and its error is returned; (5) a call that returns nil has started the password
  copy.
\<close>

theorem FirstTimeSetup_import_order:
  "((\<forall>m \<in> set (Members (Stack p)). \<exists>a. Account m = EthereumAccount (Some a)) \<and>
    (\<forall>w. fst (sys e (contracts_mkdir p) w) = None) \<and>
    (\<forall>m \<in> set (Members (Stack p)). \<forall>w.
        fst (sys e (importAccountToEthsigner (member_address m)) w) = None) \<and>
    (\<forall>cmd w. exits_cleanly (Verbose p) (fst (start e cmd w))) \<longrightarrow>
      fst (FirstTimeSetup e p s) = Return None \<and>
      (\<exists>p1 p2 p3. new_trace s (snd (FirstTimeSetup e p s)) =
         [Started (create_volume_cmd p) p1, Called (contracts_mkdir p) None,
          Started (config_copy_cmd p) p2] @
         map import_ok (map member_address (Members (Stack p))) @
         [Started (password_copy_cmd p) p3])) \<and>
   (\<forall>i. i < length (Members (Stack p)) \<and>
        (\<forall>j\<le>i. \<exists>a. Account (Members (Stack p) ! j) = EthereumAccount (Some a)) \<and>
        (\<forall>w. fst (sys e (contracts_mkdir p) w) = None) \<and>
        (\<forall>j<i. \<forall>w. fst (sys e (importAccountToEthsigner
                                  (member_address (Members (Stack p) ! j))) w) = None) \<and>
        (\<forall>w. fst (sys e (importAccountToEthsigner
                            (member_address (Members (Stack p) ! i))) w) \<noteq> None) \<and>
        (\<forall>cmd w. exits_cleanly (Verbose p) (fst (start e cmd w))) \<longrightarrow>
      (\<exists>err p1 p2. fst (FirstTimeSetup e p s) = Return (Some err) \<and>
         new_trace s (snd (FirstTimeSetup e p s)) =
           [Started (create_volume_cmd p) p1, Called (contracts_mkdir p) None,
            Started (config_copy_cmd p) p2] @
           map import_ok (take i (map member_address (Members (Stack p)))) @
           [Called (importAccountToEthsigner (member_address (Members (Stack p) ! i)))
              (Some err)])) \<and>
   (\<forall>proc. Started (password_copy_cmd p) proc \<in> set (new_trace s (snd (FirstTimeSetup e p s))) \<longrightarrow>
      (\<exists>p1 p2. new_trace s (snd (FirstTimeSetup e p s)) =
         [Started (create_volume_cmd p) p1, Called (contracts_mkdir p) None,
          Started (config_copy_cmd p) p2] @
         map import_ok (map member_address (Members (Stack p))) @
         [Started (password_copy_cmd p) proc])) \<and>
   (\<forall>a err. Called (importAccountToEthsigner a) (Some err)
               \<in> set (new_trace s (snd (FirstTimeSetup e p s))) \<longrightarrow>
      (\<exists>p1 p2 i. i < length (Members (Stack p)) \<and> a = member_address (Members (Stack p) ! i) \<and>
         new_trace s (snd (FirstTimeSetup e p s)) =
           [Started (create_volume_cmd p) p1, Called (contracts_mkdir p) None,
            Started (config_copy_cmd p) p2] @
           map import_ok (take i (map member_address (Members (Stack p)))) @
           [Called (importAccountToEthsigner a) (Some err)] \<and>
         fst (FirstTimeSetup e p s) = Return (Some err))) \<and>
   (fst (FirstTimeSetup e p s) = Return None \<longrightarrow>
      (\<exists>proc. Started (password_copy_cmd p) proc \<in> set (new_trace s (snd (FirstTimeSetup e p s)))))"
proof -
  note L = FirstTimeSetup_log_order [where p = p and s = s and e = e]
  have A: "(\<forall>m \<in> set (Members (Stack p)). \<exists>a. Account m = EthereumAccount (Some a)) \<and>
    (\<forall>w. fst (sys e (contracts_mkdir p) w) = None) \<and>
    (\<forall>m \<in> set (Members (Stack p)). \<forall>w.
        fst (sys e (importAccountToEthsigner (member_address m)) w) = None) \<and>
    (\<forall>cmd w. exits_cleanly (Verbose p) (fst (start e cmd w))) \<longrightarrow>
      fst (FirstTimeSetup e p s) = Return None \<and>
      (\<exists>p1 p2 p3. new_trace s (snd (FirstTimeSetup e p s)) =
         [Started (create_volume_cmd p) p1, Called (contracts_mkdir p) None,
          Started (config_copy_cmd p) p2] @
         map import_ok (map member_address (Members (Stack p))) @
         [Started (password_copy_cmd p) p3])"
  proof (intro impI, elim conjE)
    assume "\<forall>m \<in> set (Members (Stack p)). \<exists>a. Account m = EthereumAccount (Some a)"
      and "\<forall>w. fst (sys e (contracts_mkdir p) w) = None"
      and "\<forall>m \<in> set (Members (Stack p)). \<forall>w.
             fst (sys e (importAccountToEthsigner (member_address m)) w) = None"
      and "\<forall>cmd w. exits_cleanly (Verbose p) (fst (start e cmd w))"
    then show "fst (FirstTimeSetup e p s) = Return None \<and>
      (\<exists>p1 p2 p3. new_trace s (snd (FirstTimeSetup e p s)) =
         [Started (create_volume_cmd p) p1, Called (contracts_mkdir p) None,
          Started (config_copy_cmd p) p2] @
         map import_ok (map member_address (Members (Stack p))) @
         [Started (password_copy_cmd p) p3])"
      by (rule FirstTimeSetup_all_succeed)
  qed
  have B: "\<forall>i. i < length (Members (Stack p)) \<and>
        (\<forall>j\<le>i. \<exists>a. Account (Members (Stack p) ! j) = EthereumAccount (Some a)) \<and>
        (\<forall>w. fst (sys e (contracts_mkdir p) w) = None) \<and>
        (\<forall>j<i. \<forall>w. fst (sys e (importAccountToEthsigner
                                  (member_address (Members (Stack p) ! j))) w) = None) \<and>
        (\<forall>w. fst (sys e (importAccountToEthsigner
                            (member_address (Members (Stack p) ! i))) w) \<noteq> None) \<and>
        (\<forall>cmd w. exits_cleanly (Verbose p) (fst (start e cmd w))) \<longrightarrow>
      (\<exists>err p1 p2. fst (FirstTimeSetup e p s) = Return (Some err) \<and>
         new_trace s (snd (FirstTimeSetup e p s)) =
           [Started (create_volume_cmd p) p1, Called (contracts_mkdir p) None,
            Started (config_copy_cmd p) p2] @
           map import_ok (take i (map member_address (Members (Stack p)))) @
           [Called (importAccountToEthsigner (member_address (Members (Stack p) ! i)))
              (Some err)])"
  proof (intro allI impI, elim conjE)
    fix i
    assume "i < length (Members (Stack p))"
      and "\<forall>j\<le>i. \<exists>a. Account (Members (Stack p) ! j) = EthereumAccount (Some a)"
      and "\<forall>w. fst (sys e (contracts_mkdir p) w) = None"
      and "\<forall>j<i. \<forall>w. fst (sys e (importAccountToEthsigner
                                  (member_address (Members (Stack p) ! j))) w) = None"
      and "\<forall>w. fst (sys e (importAccountToEthsigner
                            (member_address (Members (Stack p) ! i))) w) \<noteq> None"
      and "\<forall>cmd w. exits_cleanly (Verbose p) (fst (start e cmd w))"
    then show "\<exists>err p1 p2. fst (FirstTimeSetup e p s) = Return (Some err) \<and>
         new_trace s (snd (FirstTimeSetup e p s)) =
           [Started (create_volume_cmd p) p1, Called (contracts_mkdir p) None,
            Started (config_copy_cmd p) p2] @
           map import_ok (take i (map member_address (Members (Stack p)))) @
           [Called (importAccountToEthsigner (member_address (Members (Stack p) ! i)))
              (Some err)]"
      by (rule FirstTimeSetup_import_fails)
  qed
  show ?thesis
    by (rule conjI [OF A conjI [OF B L]])
qed

theorem FirstTimeSetup_import_order_witness:
  "Started (password_copy_cmd demo_provider) ok_process
     \<in> set (new_trace fresh (snd (FirstTimeSetup (always ok_process) demo_provider fresh))) \<and>
   new_trace fresh (snd (FirstTimeSetup (always ok_process) demo_provider fresh)) =
     [Started (create_volume_cmd demo_provider) ok_process,
      Called (contracts_mkdir demo_provider) None,
      Started (config_copy_cmd demo_provider) ok_process,
      import_ok ''0xa1'', import_ok ''0xb2'', import_ok ''0xc3'',
      Started (password_copy_cmd demo_provider) ok_process] \<and>
   fst (FirstTimeSetup (always ok_process) demo_provider fresh) = Return None \<and>
   Called (importAccountToEthsigner ''0xb2'') (Some (GoError ''import failed''))
     \<in> set (new_trace fresh (snd (FirstTimeSetup second_import_fails demo_provider fresh))) \<and>
   new_trace fresh (snd (FirstTimeSetup second_import_fails demo_provider fresh)) =
     [Started (create_volume_cmd demo_provider) ok_process,
      Called (contracts_mkdir demo_provider) None,
      Started (config_copy_cmd demo_provider) ok_process,
      import_ok ''0xa1'',
      Called (importAccountToEthsigner ''0xb2'') (Some (GoError ''import failed''))] \<and>
   fst (FirstTimeSetup second_import_fails demo_provider fresh) =
     Return (Some (GoError ''import failed''))"
proof -
  have ms: "Members (Stack demo_provider) =
      [\<lparr>Account = EthereumAccount (Some \<lparr>Address = ''0xa1'', PrivateKey = ''k1''\<rparr>)\<rparr>,
       \<lparr>Account = EthereumAccount (Some \<lparr>Address = ''0xb2'', PrivateKey = ''k2''\<rparr>)\<rparr>,
       \<lparr>Account = EthereumAccount (Some \<lparr>Address = ''0xc3'', PrivateKey = ''k3''\<rparr>)\<rparr>]"
    by (simp add: demo_provider_def demo_stack_def)
  have v: "Verbose demo_provider = False" by (simp add: demo_provider_def)
  have clean: "exits_cleanly False ok_process" by code_simp
  have ok: "new_trace fresh (snd (FirstTimeSetup (always ok_process) demo_provider fresh)) =
     [Started (create_volume_cmd demo_provider) ok_process,
      Called (contracts_mkdir demo_provider) None,
      Started (config_copy_cmd demo_provider) ok_process,
      import_ok ''0xa1'', import_ok ''0xb2'', import_ok ''0xc3'',
      Started (password_copy_cmd demo_provider) ok_process]"
    by code_simp
  have bad: "new_trace fresh (snd (FirstTimeSetup second_import_fails demo_provider fresh)) =
     [Started (create_volume_cmd demo_provider) ok_process,
      Called (contracts_mkdir demo_provider) None,
      Started (config_copy_cmd demo_provider) ok_process,
      import_ok ''0xa1'',
      Called (importAccountToEthsigner ''0xb2'') (Some (GoError ''import failed''))]"
    by code_simp
  have ok_r: "fst (FirstTimeSetup (always ok_process) demo_provider fresh) = Return None"
    using FirstTimeSetup_import_order [where p = demo_provider and s = fresh
            and e = "always ok_process", THEN conjunct1]
    by (simp add: ms v clean always_def scripted_def)
  have "\<exists>err p1 p2. fst (FirstTimeSetup second_import_fails demo_provider fresh) = Return (Some err) \<and>
         new_trace fresh (snd (FirstTimeSetup second_import_fails demo_provider fresh)) =
           [Started (create_volume_cmd demo_provider) p1, Called (contracts_mkdir demo_provider) None,
            Started (config_copy_cmd demo_provider) p2] @
           map import_ok (take 1 (map member_address (Members (Stack demo_provider)))) @
           [Called (importAccountToEthsigner (member_address (Members (Stack demo_provider) ! 1)))
              (Some err)]"
    using FirstTimeSetup_import_order [where p = demo_provider and s = fresh
            and e = second_import_fails, THEN conjunct2, THEN conjunct1, rule_format, of 1]
    by (simp add: ms v clean second_import_fails_def scripted_def member_address_def
          contracts_mkdir_def less_Suc_eq_le le_Suc_eq all_conj_distrib)
  then have bad_r: "fst (FirstTimeSetup second_import_fails demo_provider fresh) =
     Return (Some (GoError ''import failed''))"
    by (auto simp: bad)
  have ok_m: "Started (password_copy_cmd demo_provider) ok_process
     \<in> set (new_trace fresh (snd (FirstTimeSetup (always ok_process) demo_provider fresh)))"
    using FirstTimeSetup_import_order [where p = demo_provider and s = fresh
            and e = "always ok_process", THEN conjunct2, THEN conjunct2, THEN conjunct2,
            THEN conjunct2] ok_r
    by (auto simp: ok)
  show ?thesis
    using ok ok_r bad bad_r ok_m by simp
qed

lemma addresses_loop_panics:
  "m \<in> set ms \<Longrightarrow> Account m = OtherAccount \<Longrightarrow> \<exists>pn. addresses_loop ms i n acc = Panic pn"
proof (induction ms arbitrary: i acc)
  case Nil
  then show ?case by simp
next
  case (Cons m' ms)
  show ?case
  proof (cases "Account m'")
    case OtherAccount
    then show ?thesis by (simp add: assert_ethereum_Account_def)
  next
    case (EthereumAccount ptr)
    show ?thesis
    proof (cases ptr)
      case None
      then show ?thesis by (simp add: EthereumAccount assert_ethereum_Account_def)
    next
      case (Some a)
      from Cons.prems EthereumAccount have "m \<in> set ms" by auto
      from Cons.IH [OF this Cons.prems(2)] show ?thesis
        by (simp add: EthereumAccount Some assert_ethereum_Account_def Let_def)
    qed
  qed
qed

lemma FirstTimeSetup_members_panics:
  "m \<in> set ms \<Longrightarrow> Account m = OtherAccount \<Longrightarrow>
   \<exists>out s' T. FirstTimeSetup_members e ms s = (out, s') \<and> trace s' = trace s @ T \<and>
     ((\<exists>pn. out = Panic pn) \<or> \<not> list_all (step_ok v) T)"
proof (induction ms arbitrary: s)
  case Nil
  then show ?case by simp
next
  case (Cons m' ms)
  show ?case
  proof (cases "Account m'")
    case OtherAccount
    then show ?thesis by (simp add: assert_ethereum_Account_def)
  next
    case (EthereumAccount ptr)
    show ?thesis
    proof (cases ptr)
      case None
      then show ?thesis by (simp add: EthereumAccount assert_ethereum_Account_def)
    next
      case (Some a)
      from Cons.prems EthereumAccount have "m \<in> set ms" by auto
      note IH = Cons.IH [OF this Cons.prems(2)]
      obtain r s1 where p: "perform e (importAccountToEthsigner (Address a)) s = (Return r, s1)"
        and t1: "trace s1 = trace s @ [Called (importAccountToEthsigner (Address a)) r]"
        using perform_result [of e "importAccountToEthsigner (Address a)" s] by blast
      show ?thesis
      proof (cases r)
        case None
        from IH [of s1] obtain out s' T where
          "FirstTimeSetup_members e ms s1 = (out, s')" "trace s' = trace s1 @ T"
          "(\<exists>pn. out = Panic pn) \<or> \<not> list_all (step_ok v) T"
          by blast
        then have "FirstTimeSetup_members e (m' # ms) s = (out, s') \<and>
            trace s' = trace s @ (Called (importAccountToEthsigner (Address a)) r # T) \<and>
            ((\<exists>pn. out = Panic pn) \<or>
             \<not> list_all (step_ok v) (Called (importAccountToEthsigner (Address a)) r # T))"
          by (auto simp: EthereumAccount Some assert_ethereum_Account_def p None on_success_def t1)
        then show ?thesis by blast
      next
        case (Some err)
        have "FirstTimeSetup_members e (m' # ms) s = (Return (Some err), s1) \<and>
            trace s1 = trace s @ [Called (importAccountToEthsigner (Address a)) r] \<and>
            \<not> list_all (step_ok v) [Called (importAccountToEthsigner (Address a)) r]"
          by (simp add: EthereumAccount \<open>ptr = Some a\<close> assert_ethereum_Account_def p Some
                on_success_def t1)
        then show ?thesis by blast
      qed
    qed
  qed
qed

lemma WriteConfig_members_panics:
  "m \<in> set ms \<Longrightarrow> Account m = OtherAccount \<Longrightarrow>
   \<exists>out s' T. WriteConfig_members e dir ms s = (out, s') \<and> trace s' = trace s @ T \<and>
     ((\<exists>pn. out = Panic pn) \<or> \<not> list_all (step_ok v) T)"
proof (induction ms arbitrary: s)
  case Nil
  then show ?case by simp
next
  case (Cons m' ms)
  show ?case
  proof (cases "Account m'")
    case OtherAccount
    then show ?thesis by (simp add: assert_ethereum_Account_def)
  next
    case (EthereumAccount ptr)
    show ?thesis
    proof (cases ptr)
      case None
      then show ?thesis by (simp add: EthereumAccount assert_ethereum_Account_def)
    next
      case (Some a)
      from Cons.prems EthereumAccount have "m \<in> set ms" by auto
      note IH = Cons.IH [OF this Cons.prems(2)]
      let ?c1 = "writeAccountToDisk dir (Address a) (PrivateKey a)"
      let ?c2 = "writeTomlKeyFile dir (Address a)"
      obtain r1 s1 where p1: "perform e ?c1 s = (Return r1, s1)"
        and t1: "trace s1 = trace s @ [Called ?c1 r1]"
        using perform_result [of e ?c1 s] by blast
      obtain r2 s2 where p2: "perform e ?c2 s1 = (Return r2, s2)"
        and t2: "trace s2 = trace s1 @ [Called ?c2 r2]"
        using perform_result [of e ?c2 s1] by blast
      show ?thesis
      proof (cases r1)
        case (Some err)
        have "WriteConfig_members e dir (m' # ms) s = (Return (Some err), s1) \<and>
            trace s1 = trace s @ [Called ?c1 r1] \<and> \<not> list_all (step_ok v) [Called ?c1 r1]"
          by (simp add: EthereumAccount \<open>ptr = Some a\<close> assert_ethereum_Account_def p1 Some
                on_success_def t1)
        then show ?thesis by blast
      next
        case None
        note r1 = None
        show ?thesis
        proof (cases r2)
          case (Some err)
          have "WriteConfig_members e dir (m' # ms) s = (Return (Some err), s2) \<and>
              trace s2 = trace s @ [Called ?c1 r1, Called ?c2 r2] \<and>
              \<not> list_all (step_ok v) [Called ?c1 r1, Called ?c2 r2]"
            by (simp add: EthereumAccount \<open>ptr = Some a\<close> assert_ethereum_Account_def p1 p2 r1 Some
                  on_success_def t1 t2)
          then show ?thesis by blast
        next
          case None
          from IH [of s2] obtain out s' T where
            "WriteConfig_members e dir ms s2 = (out, s')" "trace s' = trace s2 @ T"
            "(\<exists>pn. out = Panic pn) \<or> \<not> list_all (step_ok v) T"
            by blast
          then have "WriteConfig_members e dir (m' # ms) s = (out, s') \<and>
              trace s' = trace s @ (Called ?c1 r1 # Called ?c2 r2 # T) \<and>
              ((\<exists>pn. out = Panic pn) \<or> \<not> list_all (step_ok v) (Called ?c1 r1 # Called ?c2 r2 # T))"
            by (auto simp: EthereumAccount \<open>ptr = Some a\<close> assert_ethereum_Account_def p1 p2 r1 None
                  on_success_def t1 t2)
          then show ?thesis by blast
        qed
      qed
    qed
  qed
qed

lemma WriteConfig_panics:
  assumes "m \<in> set (Members (Stack p))" and "Account m = OtherAccount"
    and "list_all (step_ok v) (new_trace s (snd (WriteConfig e stacksDir p options rpcURL s)))"
  shows "\<exists>pn. fst (WriteConfig e stacksDir p options rpcURL s) = Panic pn"
proof -
  define initDir where "initDir = filepath_Join [stacksDir, Name (Stack p), ''init'']"
  define c1 where "c1 = MkdirAll (filepath_Join [initDir, ''blockchain'']) 493"
  define c2 where "c2 = WriteFile (filepath_Join [initDir, ''blockchain'', ''password''])
                          ''correcthorsebatterystaple'' 493"
  define c3 where "c3 = SignerConfig_WriteConfig (InitOptions_ChainID options) rpcURL
                          (filepath_Join [initDir, ''config'', ''ethsigner.yaml''])"
  let ?R = "WriteConfig e stacksDir p options rpcURL s"
  have W: "?R =
     on_success (perform e c1 s)
       (\<lambda>s. on_success (perform e c2 s)
          (\<lambda>s. case perform e c3 s of
                  (Return (Some err), s') \<Rightarrow> (Return None, s')
                | (Return None, s') \<Rightarrow> WriteConfig_members e (InitDir (Stack p)) (Members (Stack p)) s'
                | r \<Rightarrow> r))"
    by (simp add: WriteConfig_def Let_def initDir_def c1_def c2_def c3_def)
  obtain r1 s1 where p1: "perform e c1 s = (Return r1, s1)" and t1: "trace s1 = trace s @ [Called c1 r1]"
    using perform_result [of e c1 s] by blast
  obtain r2 s2 where p2: "perform e c2 s1 = (Return r2, s2)" and t2: "trace s2 = trace s1 @ [Called c2 r2]"
    using perform_result [of e c2 s1] by blast
  obtain r3 s3 where p3: "perform e c3 s2 = (Return r3, s3)" and t3: "trace s3 = trace s2 @ [Called c3 r3]"
    using perform_result [of e c3 s2] by blast
  show ?thesis
  proof (cases r1)
    case (Some err)
    then have "?R = (Return (Some err), s1)" by (simp add: W p1 on_success_def)
    then have "new_trace s (snd ?R) = [Called c1 (Some err)]"
      by (simp add: new_trace_def t1 Some)
    with assms(3) show ?thesis by simp
  next
    case None
    note r1 = None
    show ?thesis
    proof (cases r2)
      case (Some err)
      then have "?R = (Return (Some err), s2)" by (simp add: W p1 p2 r1 on_success_def)
      then have "new_trace s (snd ?R) = [Called c1 None, Called c2 (Some err)]"
        by (simp add: new_trace_def t1 t2 r1 Some)
      with assms(3) show ?thesis by simp
    next
      case None
      note r2 = None
      show ?thesis
      proof (cases r3)
        case (Some err)
        then have "?R = (Return None, s3)" by (simp add: W p1 p2 p3 r1 r2 on_success_def)
        then have "new_trace s (snd ?R) = [Called c1 None, Called c2 None, Called c3 (Some err)]"
          by (simp add: new_trace_def t1 t2 t3 r1 r2 Some)
        with assms(3) show ?thesis by simp
      next
        case None
        from WriteConfig_members_panics [OF assms(1,2), of e "InitDir (Stack p)" s3 v]
        obtain out s' T where l: "WriteConfig_members e (InitDir (Stack p)) (Members (Stack p)) s3 = (out, s')"
          and t: "trace s' = trace s3 @ T"
          and d: "(\<exists>pn. out = Panic pn) \<or> \<not> list_all (step_ok v) T"
          by blast
        have R: "?R = (out, s')" by (simp add: W p1 p2 p3 r1 r2 None on_success_def l)
        have "new_trace s (snd ?R) = [Called c1 None, Called c2 None, Called c3 None] @ T"
          by (simp add: R new_trace_def t t1 t2 t3 r1 r2 None)
        with assms(3) have "list_all (step_ok v) T" by simp
        with d R show ?thesis by auto
      qed
    qed
  qed
qed

lemma FirstTimeSetup_panics:
  assumes "m \<in> set (Members (Stack p))" and "Account m = OtherAccount"
    and "list_all (step_ok (Verbose p)) (new_trace s (snd (FirstTimeSetup e p s)))"
  shows "\<exists>pn. fst (FirstTimeSetup e p s) = Panic pn"
proof -
  let ?R = "FirstTimeSetup e p s"
  let ?pw = "\<lambda>s4. CopyFileToVolume e (provider_ctx p) (Name (Stack p) @ ''_ethsigner'')
                       (path_Join [filepath_Join [RuntimeDir (Stack p), ''blockchain''], ''password''])
                       ''password'' s4"
  from FirstTimeSetup_pre [of s e p]
  consider
    (vol) p1 where "new_trace s (snd ?R) = [Started (create_volume_cmd p) p1]"
        "\<not> exits_cleanly (Verbose p) p1"
  | (mk) p1 err where "new_trace s (snd ?R) =
          [Started (create_volume_cmd p) p1, Called (contracts_mkdir p) (Some err)]"
  | (cfg) p1 p2 where "new_trace s (snd ?R) =
          [Started (create_volume_cmd p) p1, Called (contracts_mkdir p) None,
           Started (config_copy_cmd p) p2]" "\<not> exits_cleanly (Verbose p) p2"
  | (loop) p1 p2 s3 where "trace s3 = trace s @ [Started (create_volume_cmd p) p1,
           Called (contracts_mkdir p) None, Started (config_copy_cmd p) p2]"
          "?R = on_success (FirstTimeSetup_members e (Members (Stack p)) s3) ?pw"
    by blast
  then show ?thesis
  proof cases
    case vol
    with assms(3) show ?thesis by simp
  next
    case mk
    with assms(3) show ?thesis by simp
  next
    case cfg
    with assms(3) show ?thesis by simp
  next
    case loop
    from FirstTimeSetup_members_panics [OF assms(1,2), of e s3 "Verbose p"]
    obtain out s' T where l: "FirstTimeSetup_members e (Members (Stack p)) s3 = (out, s')"
      and t: "trace s' = trace s3 @ T"
      and d: "(\<exists>pn. out = Panic pn) \<or> \<not> list_all (step_ok (Verbose p)) T"
      by blast
    show ?thesis
    proof (cases "\<exists>pn. out = Panic pn")
      case True
      then show ?thesis by (auto simp: loop(2) l on_success_def)
    next
      case False
      with d have bad: "\<not> list_all (step_ok (Verbose p)) T" by simp
      obtain r5 s5 p3 where c5: "?pw s' = (r5, s5)"
        and t5: "trace s5 = trace s' @ [Started (password_copy_cmd p) p3]"
        using RunDockerCommand_result [OF provider_ctx_simps(1), of e p "''.''"
                "CopyFileToVolume_args (Name (Stack p) @ ''_ethsigner'')
                   (path_Join [filepath_Join [RuntimeDir (Stack p), ''blockchain''], ''password''])
                   ''password''" s']
        by (auto simp: CopyFileToVolume_def password_copy_cmd_def provider_ctx_simps)
      have "?R = (out, s') \<or> ?R = (r5, s5)"
        by (simp add: loop(2) l on_success_def c5 split: outcome.splits option.splits)
      then have "\<exists>X. new_trace s (snd ?R) =
          [Started (create_volume_cmd p) p1, Called (contracts_mkdir p) None,
           Started (config_copy_cmd p) p2] @ T @ X"
        by (auto simp: new_trace_def t t5 loop(1))
      with assms(3) bad show ?thesis by auto
    qed
  qed
qed

lemma WriteConfig_members_reaches:
  assumes "m \<in> set ms" and "Account m = OtherAccount"
    and "\<forall>c w. fst (sys e c w) = None"
  shows "\<exists>pn s'. WriteConfig_members e dir ms s = (Panic pn, s')"
  using assms(1)
proof (induction ms arbitrary: s)
  case Nil
  then show ?case by simp
next
  case (Cons m' ms)
  show ?case
  proof (cases "Account m'")
    case OtherAccount
    then show ?thesis by (simp add: assert_ethereum_Account_def)
  next
    case (EthereumAccount ptr)
    show ?thesis
    proof (cases ptr)
      case None
      then show ?thesis by (simp add: EthereumAccount assert_ethereum_Account_def)
    next
      case (Some a)
      from Cons.prems EthereumAccount assms(2) have "m \<in> set ms" by auto
      from assms(3) have "fst (sys e (writeAccountToDisk dir (Address a) (PrivateKey a)) (world s)) = None"
        by blast
      from perform_answer [OF this] obtain s1 where
        p1: "perform e (writeAccountToDisk dir (Address a) (PrivateKey a)) s = (Return None, s1)"
        by blast
      from assms(3) have "fst (sys e (writeTomlKeyFile dir (Address a)) (world s1)) = None"
        by blast
      from perform_answer [OF this] obtain s2 where
        p2: "perform e (writeTomlKeyFile dir (Address a)) s1 = (Return None, s2)"
        by blast
      from Cons.IH [OF \<open>m \<in> set ms\<close>, of s2] show ?thesis
        by (simp add: EthereumAccount Some assert_ethereum_Account_def on_success_def p1 p2)
    qed
  qed
qed

lemma FirstTimeSetup_members_reaches:
  assumes "m \<in> set ms" and "Account m = OtherAccount"
    and "\<forall>c w. fst (sys e c w) = None"
  shows "\<exists>pn s'. FirstTimeSetup_members e ms s = (Panic pn, s')"
  using assms(1)
proof (induction ms arbitrary: s)
  case Nil
  then show ?case by simp
next
  case (Cons m' ms)
  show ?case
  proof (cases "Account m'")
    case OtherAccount
    then show ?thesis by (simp add: assert_ethereum_Account_def)
  next
    case (EthereumAccount ptr)
    show ?thesis
    proof (cases ptr)
      case None
      then show ?thesis by (simp add: EthereumAccount assert_ethereum_Account_def)
    next
      case (Some a)
      from Cons.prems EthereumAccount assms(2) have "m \<in> set ms" by auto
      from assms(3) have "fst (sys e (importAccountToEthsigner (Address a)) (world s)) = None"
        by blast
      from perform_answer [OF this] obtain s1 where
        p1: "perform e (importAccountToEthsigner (Address a)) s = (Return None, s1)"
        by blast
      from Cons.IH [OF \<open>m \<in> set ms\<close>, of s1] show ?thesis
        by (simp add: EthereumAccount Some assert_ethereum_Account_def on_success_def p1)
    qed
  qed
qed

lemma WriteConfig_reaches:
  assumes "m \<in> set (Members (Stack p))" and "Account m = OtherAccount"
    and "\<forall>c w. fst (sys e c w) = None"
  shows "\<exists>pn. fst (WriteConfig e stacksDir p options rpcURL s) = Panic pn"
proof -
  define initDir where "initDir = filepath_Join [stacksDir, Name (Stack p), ''init'']"
  define c1 where "c1 = MkdirAll (filepath_Join [initDir, ''blockchain'']) 493"
  define c2 where "c2 = WriteFile (filepath_Join [initDir, ''blockchain'', ''password''])
                            ''correcthorsebatterystaple'' 493"
  define c3 where "c3 = SignerConfig_WriteConfig (InitOptions_ChainID options) rpcURL
                          (filepath_Join [initDir, ''config'', ''ethsigner.yaml''])"
  have ans: "fst (sys e c (world s')) = None" for c s' using assms(3) by blast
  from perform_answer [OF ans] obtain s1 where p1: "perform e c1 s = (Return None, s1)" by blast
  from perform_answer [OF ans] obtain s2 where p2: "perform e c2 s1 = (Return None, s2)" by blast
  from perform_answer [OF ans] obtain s3 where p3: "perform e c3 s2 = (Return None, s3)" by blast
  from WriteConfig_members_reaches [OF assms, of "InitDir (Stack p)" s3] obtain pn s' where
    l: "WriteConfig_members e (InitDir (Stack p)) (Members (Stack p)) s3 = (Panic pn, s')"
    by blast
  have "WriteConfig e stacksDir p options rpcURL s = (Panic pn, s')"
    using p1 p2 p3 l
    by (simp add: WriteConfig_def Let_def initDir_def [symmetric] c1_def [symmetric]
          c2_def [symmetric] c3_def [symmetric] on_success_def)
  then show ?thesis by simp
qed

lemma FirstTimeSetup_reaches:
  assumes "m \<in> set (Members (Stack p))" and "Account m = OtherAccount"
    and "\<forall>c w. fst (sys e c w) = None"
    and "\<forall>cmd w. exits_cleanly (Verbose p) (fst (start e cmd w))"
  shows "\<exists>pn. fst (FirstTimeSetup e p s) = Panic pn"
proof -
  from assms(3) have "\<forall>w. fst (sys e (contracts_mkdir p) w) = None" by blast
  from FirstTimeSetup_steps_ok [OF this assms(4), of s] obtain s3 where
    R: "FirstTimeSetup e p s =
          on_success (FirstTimeSetup_members e (Members (Stack p)) s3)
            (\<lambda>s4. CopyFileToVolume e (provider_ctx p) (Name (Stack p) @ ''_ethsigner'')
                     (path_Join [filepath_Join [RuntimeDir (Stack p), ''blockchain''], ''password''])
                     ''password'' s4)"
    by blast
  from FirstTimeSetup_members_reaches [OF assms(1,2,3), of s3] obtain pn s' where
    "FirstTimeSetup_members e (Members (Stack p)) s3 = (Panic pn, s')"
    by blast
  then have "FirstTimeSetup e p s = (Panic pn, s')"
    by (simp add: R on_success_def)
  then show ?thesis by simp
qed

text \<open>
  C10 as stated fails on the code: a stack with a member whose account is not a
  \<open>*ethereum.Account\<close> does not make \<open>WriteConfig\<close> and \<open>FirstTimeSetup\<close> panic in
  every case. The downcast is executed inside the loop over the members, after other
  steps. On the stack whose second member holds another kind of account: when the
  blockchain directory cannot be created \<open>WriteConfig\<close> returns that error, when the
  signer configuration cannot be written it returns nil, and when the import of the
  first member fails \<open>FirstTimeSetup\<close> returns that error.
\<close>

theorem unchecked_downcast_counterexample:
  "\<lparr>Account = OtherAccount\<rparr> \<in> set (Members (Stack mixed_provider)) \<and>
   fst (WriteConfig mkdir_fails ''/stacks'' mixed_provider demo_options ''http://geth:8545'' fresh) =
     Return (Some (GoError ''read-only file system'')) \<and>
   fst (WriteConfig config_write_fails ''/stacks'' mixed_provider demo_options ''http://geth:8545''
          fresh) = Return None \<and>
   fst (FirstTimeSetup first_import_fails mixed_provider fresh) =
     Return (Some (GoError ''import failed''))"
proof -
  have m: "\<lparr>Account = OtherAccount\<rparr> \<in> set (Members (Stack mixed_provider))"
    by (simp add: mixed_provider_def mixed_stack_def)
  have a: "fst (WriteConfig mkdir_fails ''/stacks'' mixed_provider demo_options ''http://geth:8545'' fresh) =
     Return (Some (GoError ''read-only file system''))"
    by code_simp
  have b: "fst (WriteConfig config_write_fails ''/stacks'' mixed_provider demo_options ''http://geth:8545''
          fresh) = Return None"
    by code_simp
  have c: "fst (FirstTimeSetup first_import_fails mixed_provider fresh) =
     Return (Some (GoError ''import failed''))"
    by code_simp
  from m a b c show ?thesis by simp
qed

text \<open>
  C10, as amended. Let some member of the stack hold an account that is not a
  \<open>*ethereum.Account\<close>. \<open>GetDockerServiceDefinition\<close> panics. \<open>WriteConfig\<close> and
  \<open>FirstTimeSetup\<close> panic whenever every step they logged succeeded, that is, unless an
  earlier step failed and ended the call before the loop reached that member. In
  particular \<open>WriteConfig\<close> panics when the environment answers every request with nil,
  and \<open>FirstTimeSetup\<close> panics when in addition every command it starts exits cleanly.
\<close>

theorem unchecked_downcast_panics:
  assumes "m \<in> set (Members (Stack p))" and "Account m = OtherAccount"
  shows "(\<exists>pn. GetDockerServiceDefinition javaSigner url_Parse logOptions p rpcURL = Panic pn) \<and>
         (list_all (step_ok v) (new_trace s (snd (WriteConfig e stacksDir p options rpcURL s))) \<longrightarrow>
            (\<exists>pn. fst (WriteConfig e stacksDir p options rpcURL s) = Panic pn)) \<and>
         (list_all (step_ok (Verbose p)) (new_trace s (snd (FirstTimeSetup e p s))) \<longrightarrow>
            (\<exists>pn. fst (FirstTimeSetup e p s) = Panic pn)) \<and>
         ((\<forall>c w. fst (sys e c w) = None) \<longrightarrow>
            (\<exists>pn. fst (WriteConfig e stacksDir p options rpcURL s) = Panic pn)) \<and>
         ((\<forall>c w. fst (sys e c w) = None) \<and>
          (\<forall>cmd w. exits_cleanly (Verbose p) (fst (start e cmd w))) \<longrightarrow>
            (\<exists>pn. fst (FirstTimeSetup e p s) = Panic pn))"
proof -
  from addresses_loop_panics [OF assms, of 0 "length (Members (Stack p))" "[]"]
  have a: "\<exists>pn. GetDockerServiceDefinition javaSigner url_Parse logOptions p rpcURL = Panic pn"
    by (auto simp: GetDockerServiceDefinition_def)
  have b: "list_all (step_ok v) (new_trace s (snd (WriteConfig e stacksDir p options rpcURL s))) \<longrightarrow>
            (\<exists>pn. fst (WriteConfig e stacksDir p options rpcURL s) = Panic pn)"
    using WriteConfig_panics [OF assms] by blast
  have c: "list_all (step_ok (Verbose p)) (new_trace s (snd (FirstTimeSetup e p s))) \<longrightarrow>
            (\<exists>pn. fst (FirstTimeSetup e p s) = Panic pn)"
    using FirstTimeSetup_panics [OF assms] by blast
  have d: "(\<forall>c w. fst (sys e c w) = None) \<longrightarrow>
            (\<exists>pn. fst (WriteConfig e stacksDir p options rpcURL s) = Panic pn)"
    using WriteConfig_reaches [OF assms] by blast
  have f: "(\<forall>c w. fst (sys e c w) = None) \<and>
          (\<forall>cmd w. exits_cleanly (Verbose p) (fst (start e cmd w))) \<longrightarrow>
            (\<exists>pn. fst (FirstTimeSetup e p s) = Panic pn)"
    using FirstTimeSetup_reaches [OF assms] by blast
  show ?thesis
    by (rule conjI [OF a conjI [OF b conjI [OF c conjI [OF d f]]]])
qed

theorem unchecked_downcast_panics_witness:
  "\<lparr>Account = OtherAccount\<rparr> \<in> set (Members (Stack mixed_provider)) \<and>
   GetDockerServiceDefinition useJavaSigner sample_url_Parse () mixed_provider ''http://rpc.local'' =
     Panic TypeAssertion \<and>
   list_all (step_ok False)
     (new_trace fresh (snd (WriteConfig (always ok_process) ''/stacks'' mixed_provider demo_options
        ''http://rpc.local'' fresh))) \<and>
   fst (WriteConfig (always ok_process) ''/stacks'' mixed_provider demo_options
        ''http://rpc.local'' fresh) = Panic TypeAssertion \<and>
   list_all (step_ok False)
     (new_trace fresh (snd (FirstTimeSetup (always ok_process) mixed_provider fresh))) \<and>
   fst (FirstTimeSetup (always ok_process) mixed_provider fresh) = Panic TypeAssertion"
proof -
  have m: "\<lparr>Account = OtherAccount\<rparr> \<in> set (Members (Stack mixed_provider))"
    by (simp add: mixed_provider_def mixed_stack_def)
  have acc: "Account \<lparr>Account = OtherAccount\<rparr> = OtherAccount" by simp
  have g: "GetDockerServiceDefinition useJavaSigner sample_url_Parse () mixed_provider ''http://rpc.local'' =
     Panic TypeAssertion"
    by code_simp
  have w: "list_all (step_ok False)
     (new_trace fresh (snd (WriteConfig (always ok_process) ''/stacks'' mixed_provider demo_options
        ''http://rpc.local'' fresh)))"
    by code_simp
  have wr: "fst (WriteConfig (always ok_process) ''/stacks'' mixed_provider demo_options
        ''http://rpc.local'' fresh) = Panic TypeAssertion"
    by code_simp
  have f: "list_all (step_ok False)
     (new_trace fresh (snd (FirstTimeSetup (always ok_process) mixed_provider fresh)))"
    by code_simp
  have fr: "fst (FirstTimeSetup (always ok_process) mixed_provider fresh) = Panic TypeAssertion"
    by code_simp
  have v: "Verbose mixed_provider = False" by (simp add: mixed_provider_def)
  have answers: "\<forall>c w. fst (sys (always ok_process) c w) = None"
    by (simp add: always_def scripted_def)
  have "exits_cleanly False ok_process" by code_simp
  then have clean: "\<forall>cmd w. exits_cleanly (Verbose mixed_provider) (fst (start (always ok_process) cmd w))"
    by (simp add: v always_def scripted_def)
  show ?thesis
    using unchecked_downcast_panics [OF m acc, where javaSigner = useJavaSigner
            and url_Parse = sample_url_Parse and logOptions = "()" and rpcURL = "''http://rpc.local''"
            and v = False and s = fresh and e = "always ok_process" and stacksDir = "''/stacks''"
            and options = demo_options]
          m g w wr f fr answers clean
    by simp
qed

section \<open>Properties of the service definition\<close>

lemma addresses_loop_returns:
  "\<forall>m \<in> set ms. \<exists>a. Account m = EthereumAccount (Some a) \<Longrightarrow>
   \<exists>addresses. addresses_loop ms i n acc = Return addresses"
proof (induction ms arbitrary: i acc)
  case Nil
  show ?case by simp
next
  case (Cons m ms)
  then obtain a where a: "Account m = EthereumAccount (Some a)" by auto
  from Cons.prems have "\<forall>m \<in> set ms. \<exists>a. Account m = EthereumAccount (Some a)" by simp
  from Cons.IH [OF this] show ?case
    by (simp add: a assert_ethereum_Account_def Let_def)
qed

lemma show_int_5100: "show_int 5100 = ''5100''"
  by code_simp




text \<open>
  C8, as amended. Every service definition \<open>GetDockerServiceDefinition\<close> returns has the
  container name \<open><stack>_ethsigner\<close>, maps the stack's exposed blockchain port to
  8545, binds the two volumes \<open>ethsigner\<close> and \<open>ethsigner_config\<close> and declares
  exactly these two volume names, without the stack's name in front; and it returns one
  whenever every member holds an Ethereum account.
\<close>

theorem GetDockerServiceDefinition_names:
  "(GetDockerServiceDefinition javaSigner url_Parse logOptions p rpcURL = Return sd \<longrightarrow>
      ContainerName (Service sd) = Name (Stack p) @ ''_ethsigner'' \<and>
      Ports (Service sd) = [show_int (ExposedBlockchainPort (Stack p)) @ '':8545''] \<and>
      Volumes (Service sd) = [''ethsigner:/data'', ''ethsigner_config:/etc/firefly''] \<and>
      VolumeNames sd = [''ethsigner'', ''ethsigner_config'']) \<and>
   ((\<forall>m \<in> set (Members (Stack p)). \<exists>a. Account m = EthereumAccount (Some a)) \<longrightarrow>
      (\<exists>sd'. GetDockerServiceDefinition useJavaSigner url_Parse logOptions p rpcURL = Return sd'))"
proof -
  have a: "GetDockerServiceDefinition javaSigner url_Parse logOptions p rpcURL = Return sd \<longrightarrow>
      ContainerName (Service sd) = Name (Stack p) @ ''_ethsigner'' \<and>
      Ports (Service sd) = [show_int (ExposedBlockchainPort (Stack p)) @ '':8545''] \<and>
      Volumes (Service sd) = [''ethsigner:/data'', ''ethsigner_config:/etc/firefly''] \<and>
      VolumeNames sd = [''ethsigner'', ''ethsigner_config'']"
    by (auto simp: GetDockerServiceDefinition_def split: outcome.splits)
  have b: "\<exists>sd'. GetDockerServiceDefinition useJavaSigner url_Parse logOptions p rpcURL = Return sd'"
    if "\<forall>m \<in> set (Members (Stack p)). \<exists>a. Account m = EthereumAccount (Some a)"
  proof -
    from addresses_loop_returns [OF that, of 0 "length (Members (Stack p))" "[]"]
    obtain addresses where
      "addresses_loop (Members (Stack p)) 0 (length (Members (Stack p))) [] = Return addresses"
      by blast
    then show ?thesis
      by (simp add: GetDockerServiceDefinition_def getCommand_def useJavaSigner_def)
  qed
  from a b show ?thesis by blast
qed

text \<open>
  C8 as stated fails: for the stack \<open>dev\<close> the declared volume names are \<open>ethsigner\<close>
  and \<open>ethsigner_config\<close>, not \<open>dev_ethsigner\<close> and \<open>dev_ethsigner_config\<close>.
\<close>

theorem GetDockerServiceDefinition_volume_names_counterexample:
  "Name (Stack demo_provider) = ''dev'' \<and>
   map_outcome VolumeNames
     (GetDockerServiceDefinition useJavaSigner sample_url_Parse () demo_provider ''http://rpc.local'') =
     Return [''ethsigner'', ''ethsigner_config''] \<and>
   [''ethsigner'', ''ethsigner_config''] \<noteq> [''dev_ethsigner'', ''dev_ethsigner_config'']"
  by (simp add: GetDockerServiceDefinition_def getCommand_def useJavaSigner_def demo_provider_def
        demo_stack_def assert_ethereum_Account_def Let_def)

theorem GetDockerServiceDefinition_names_witness:
  "map_outcome (\<lambda>sd. (ContainerName (Service sd), Ports (Service sd), Volumes (Service sd), VolumeNames sd))
     (GetDockerServiceDefinition useJavaSigner sample_url_Parse () demo_provider ''http://rpc.local'') =
   Return (''dev_ethsigner'', [''5100:8545''], [''ethsigner:/data'', ''ethsigner_config:/etc/firefly''],
           [''ethsigner'', ''ethsigner_config''])"
proof -
  have m: "\<forall>m \<in> set (Members (Stack demo_provider)). \<exists>a. Account m = EthereumAccount (Some a)"
    by (simp add: demo_provider_def demo_stack_def)
  from GetDockerServiceDefinition_names [of useJavaSigner sample_url_Parse "()" demo_provider
         "''http://rpc.local''"] m
  obtain sd' where r: "GetDockerServiceDefinition useJavaSigner sample_url_Parse () demo_provider
         ''http://rpc.local'' = Return sd'"
    by blast
  from GetDockerServiceDefinition_names [of useJavaSigner sample_url_Parse "()" demo_provider
         "''http://rpc.local''" sd'] r
  show ?thesis
    by (simp add: demo_provider_def demo_stack_def show_int_5100)
qed

end
